theory Spec2Isabelle
  imports Complex_Main "HOL-Library.Word"
begin

unbundle bit_operations_syntax

section \<open>Machine types\<close>

text \<open>
  \<open>uint32_t\<close>, \<open>DWORD\<close>, \<open>UINT\<close> and \<open>LONG\<close> are 32-bit words, \<open>WORD\<close> is a 16-bit
  word. A non-null pointer (a \<open>void*\<close> handle of the encoder runtime or of the OS) is a
  natural number; a nullable pointer is an \<open>option\<close> of it.
\<close>

type_synonym u32 = "32 word"
type_synonym u16 = "16 word"
type_synonym handle = nat

section \<open>The NVENC hardware encoder (nvidia_encoder.cpp)\<close>

subsection \<open>Data of the encoder API that the source reads and writes\<close>

datatype NVENCSTATUS = NV_ENC_SUCCESS | NV_ENC_ERR nat

datatype NV_ENC_BUFFER_FORMAT =
    NV_ENC_BUFFER_FORMAT_NV12
  | NV_ENC_BUFFER_FORMAT_ARGB
  | NV_ENC_BUFFER_FORMAT_YUV420_10BIT
  | NV_ENC_BUFFER_FORMAT_YUV444
  | NV_ENC_BUFFER_FORMAT_YUV444_10BIT
  | NV_ENC_BUFFER_FORMAT_OTHER nat

datatype VideoCodecType = H264 | H265 | VideoCodecType_Other nat

datatype RcMode = CBR | VBR | RcMode_Other nat

datatype Preset = Balanced | Speed | Quality | Preset_Other nat

datatype GUID =
    NV_ENC_CODEC_H264_GUID
  | NV_ENC_CODEC_HEVC_GUID
  | NV_ENC_PRESET_LOW_LATENCY_DEFAULT_GUID
  | NV_ENC_PRESET_LOW_LATENCY_HP_GUID
  | NV_ENC_PRESET_LOW_LATENCY_HQ_GUID
  | NV_ENC_PRESET_LOSSLESS_DEFAULT_GUID
  | NV_ENC_PRESET_LOSSLESS_HP_GUID

datatype NV_ENC_PARAMS_RC_MODE =
    NV_ENC_PARAMS_RC_CONSTQP
  | NV_ENC_PARAMS_RC_VBR
  | NV_ENC_PARAMS_RC_CBR
  | NV_ENC_PARAMS_RC_OTHER nat

datatype NV_ENC_PIC_TYPE =
    NV_ENC_PIC_TYPE_P
  | NV_ENC_PIC_TYPE_B
  | NV_ENC_PIC_TYPE_I
  | NV_ENC_PIC_TYPE_IDR
  | NV_ENC_PIC_TYPE_BI
  | NV_ENC_PIC_TYPE_SKIPPED
  | NV_ENC_PIC_TYPE_INTRA_REFRESH
  | NV_ENC_PIC_TYPE_NONREF_P
  | NV_ENC_PIC_TYPE_UNKNOWN

record NV_ENC_QP =
  qpInterP :: u32
  qpInterB :: u32
  qpIntra :: u32

record NV_ENC_RC_PARAMS =
  rateControlMode :: NV_ENC_PARAMS_RC_MODE
  constQP :: NV_ENC_QP
  averageBitRate :: u32
  maxBitRate :: u32
  vbvBufferSize :: u32
  vbvInitialDelay :: u32
  enableMinQP :: bool
  enableMaxQP :: bool
  minQP :: NV_ENC_QP
  maxQP :: NV_ENC_QP

text \<open>
  \<open>encodeCodecConfig\<close> is a union of the H.264 and the HEVC view; the source writes only
  the view of the configured codec. Both views are kept, each with its own fields.
\<close>

record NV_ENC_CONFIG_H264 =
  h264_chromaFormatIDC :: u32
  h264_idrPeriod :: u32
  h264_maxNumRefFrames :: u32
  h264_sliceMode :: u32
  h264_sliceModeData :: u32

record NV_ENC_CONFIG_HEVC =
  hevc_pixelBitDepthMinus8 :: u32
  hevc_chromaFormatIDC :: u32
  hevc_idrPeriod :: u32
  hevc_maxNumRefFramesInDPB :: u32
  hevc_sliceMode :: u32
  hevc_sliceModeData :: u32

record NV_ENC_CONFIG =
  frameIntervalP :: u32
  gopLength :: u32
  rcParams :: NV_ENC_RC_PARAMS
  h264Config :: NV_ENC_CONFIG_H264
  hevcConfig :: NV_ENC_CONFIG_HEVC

text \<open>
  \<open>NV_ENC_INITIALIZE_PARAMS::encodeConfig\<close> is a pointer; \<open>generateEncodeParams\<close> sets it
  to the address of the member \<open>encode_config\<close> and nothing changes it afterwards, so the
  pointee is always the encoder's \<open>encode_config\<close>. Every API call that receives the
  initialize params is recorded together with that pointee.
\<close>

record NV_ENC_INITIALIZE_PARAMS =
  encodeGUID :: GUID
  presetGUID :: GUID
  encodeWidth :: u32
  encodeHeight :: u32
  darWidth :: u32
  darHeight :: u32
  maxEncodeWidth :: u32
  maxEncodeHeight :: u32
  frameRateNum :: u32
  frameRateDen :: u32
  enablePTD :: u32
  reportSliceOffsets :: u32
  enableSubFrameWrite :: u32
  enableEncodeAsync :: bool

record NV_ENC_MAP_INPUT_RESOURCE =
  registeredResource :: "handle option"
  mappedResource :: "handle option"

record NV_ENC_PIC_PARAMS =
  encodePicFlags :: u32
  inputBuffer :: "handle option"
  bufferFmt :: NV_ENC_BUFFER_FORMAT
  inputWidth :: u32
  inputHeight :: u32
  outputBitstream :: "handle option"
  completionEvent :: "handle option"

definition NV_ENC_PIC_FLAG_FORCEIDR :: u32 where
  "NV_ENC_PIC_FLAG_FORCEIDR = 0x2"

definition NV_ENC_PIC_FLAG_OUTPUT_SPSPPS :: u32 where
  "NV_ENC_PIC_FLAG_OUTPUT_SPSPPS = 0x4"

definition NVENC_INFINITE_GOPLENGTH :: u32 where
  "NVENC_INFINITE_GOPLENGTH = 0xffffffff"

subsection \<open>Observable effects\<close>

text \<open>
  Every function of the encoder returns, next to its result and the updated object, the
  list of the calls it made into the encoder runtime and of the lines it logged, in
  program order.
\<close>

datatype NvEvent =
    Call_NvEncodeAPIGetMaxSupportedVersion
  | Call_NvEncodeAPICreateInstance
  | Call_nvEncOpenEncodeSessionEx
  | Call_nvEncGetEncodePresetConfig "handle option" GUID GUID
  | Call_nvEncInitializeEncoder "handle option" NV_ENC_INITIALIZE_PARAMS NV_ENC_CONFIG
  | Call_nvEncRegisterAsyncEvent "handle option" "handle option"
  | Call_nvEncCreateBitstreamBuffer "handle option"
  | Call_nvEncReconfigureEncoder "handle option" NV_ENC_INITIALIZE_PARAMS NV_ENC_CONFIG
  | Call_nvEncRegisterResource "handle option" "handle option"
  | Call_nvEncMapInputResource "handle option" "handle option"
  | Call_nvEncEncodePicture "handle option" NV_ENC_PIC_PARAMS
  | Call_nvEncLockBitstream "handle option" "handle option"
  | Call_nvEncUnlockBitstream "handle option" "handle option"
  | Call_nvEncUnmapInputResource "handle option" NV_ENC_MAP_INPUT_RESOURCE
  | Call_nvEncUnregisterResource "handle option" handle
  | Call_nvEncGetEncodeStats "handle option" "handle option"
  | LOG_ERR string
  | LOG_INFO string

subsection \<open>The encoder object\<close>

text \<open>
  The members of \<open>NvD3d11EncoderImpl\<close> that the modelled functions read or write, under
  their names without the trailing underscore. \<open>nvapi_\<close> and \<open>nvfuncs_\<close> (the loaded
  library and its function table) appear as the calls made through them.
\<close>

record NvD3d11EncoderImpl =
  width :: u32
  height :: u32
  codec_type :: VideoCodecType
  nvencoder :: "handle option"
  buffer_format :: NV_ENC_BUFFER_FORMAT
  init_params :: NV_ENC_INITIALIZE_PARAMS
  encode_config :: NV_ENC_CONFIG
  bitstream_output_buffer :: "handle option"
  event :: "handle option"
  async :: bool

text \<open>
  \<open>VideoEncoder::ReconfigureParams\<close> is declared in video_encoder.h, which is not among
  the sources; these are the two members \<open>reconfigure\<close> reads, both \<open>std::optional\<close>.
\<close>

record ReconfigureParams =
  bitrate_bps :: "u32 option"
  fps :: "u32 option"

subsection \<open>reconfigure\<close>

text \<open>
  \<open>NvD3d11EncoderImpl::reconfigure\<close>, to which \<open>NvD3d11Encoder::reconfigure\<close> forwards.
  The single-precision product
  \<open>static_cast<uint32_t>(bitrate * 1.05f)\<close> is the parameter \<open>mul_1_05f\<close>. The status of
  \<open>nvEncReconfigureEncoder\<close> is \<open>status\<close>; the function is \<open>void\<close>, so the result is the
  updated object and the effects only.
\<close>

definition reconfigure ::
  "(u32 \<Rightarrow> u32) \<Rightarrow> NVENCSTATUS \<Rightarrow> 'a ReconfigureParams_scheme \<Rightarrow> NvD3d11EncoderImpl
     \<Rightarrow> NvD3d11EncoderImpl \<times> NvEvent list" where
  "reconfigure mul_1_05f status params s =
     (let s1 = (case bitrate_bps params of
                  Some b \<Rightarrow>
                    s\<lparr>encode_config := (encode_config s)
                        \<lparr>rcParams := (rcParams (encode_config s))
                            \<lparr>averageBitRate := b, maxBitRate := mul_1_05f b\<rparr>\<rparr>\<rparr>
                | None \<Rightarrow> s);
          s2 = (case fps params of
                  Some f \<Rightarrow> s1\<lparr>init_params := (init_params s1)\<lparr>frameRateNum := f\<rparr>\<rparr>
                | None \<Rightarrow> s1);
          changed = (bitrate_bps params \<noteq> None \<or> fps params \<noteq> None)
      in if \<not> changed then (s2, [])
         else (s2,
               Call_nvEncReconfigureEncoder (nvencoder s2) (init_params s2) (encode_config s2)
               # (if status \<noteq> NV_ENC_SUCCESS
                  then [LOG_ERR ''nvEncReconfigureEncoder failed with'']
                  else [])))"


subsection \<open>Reconfigure messages in the capture pipeline\<close>

text \<open>
  Modelled from the spec: the Reconfigure message (section 6) with the version counter of
  section 3 ("every field change is versioned so stale reconfigurations arriving out of
  order are ignored (monotonic version counter)"). No declaration of the message is among
  the sources; it is the encoder's request extended by the counter.
\<close>

record ReconfigureMessage = ReconfigureParams +
  version :: nat

text \<open>
  Modelled from the spec: the capture pipeline of section 4.3 as far as reconfiguration
  goes. The code that receives Reconfigure messages and calls the encoder is not among the
  sources. The pipeline owns the hardware encoder and remembers the versions of the
  reconfigurations it has applied, oldest first.
\<close>

record CapturePipeline =
  encoder :: NvD3d11EncoderImpl
  applied_versions :: "nat list"

text \<open>
  Modelled from the spec: a message is stale when a reconfiguration has been applied and
  the version of the message is lower than that of the last one applied (section 8).
\<close>

definition stale :: "ReconfigureMessage \<Rightarrow> CapturePipeline \<Rightarrow> bool" where
  "stale msg p =
     (case applied_versions p of
        [] \<Rightarrow> False
      | _ # _ \<Rightarrow> version msg < last (applied_versions p))"

text \<open>
  Modelled from the spec: a stale message is ignored; any other message is applied by
  the encoder's \<open>reconfigure\<close> (the function of nvidia_encoder.cpp above, which itself has
  no version and applies every request it is given) and its version is recorded.
\<close>

definition on_reconfigure ::
  "(u32 \<Rightarrow> u32) \<Rightarrow> NVENCSTATUS \<Rightarrow> ReconfigureMessage \<Rightarrow> CapturePipeline
     \<Rightarrow> CapturePipeline \<times> NvEvent list" where
  "on_reconfigure mul_1_05f status msg p =
     (if stale msg p then (p, [])
      else
        (let (e, t) = reconfigure mul_1_05f status msg (encoder p)
         in (p\<lparr>encoder := e, applied_versions := applied_versions p @ [version msg]\<rparr>, t)))"

text \<open>
  Modelled from the spec: the messages of a sequence are handled one after the other, each
  with the status the runtime gives the encoder's call; the effects are concatenated.
\<close>

fun on_reconfigure_all ::
  "(u32 \<Rightarrow> u32) \<Rightarrow> (NVENCSTATUS \<times> ReconfigureMessage) list \<Rightarrow> CapturePipeline
     \<Rightarrow> CapturePipeline \<times> NvEvent list" where
  "on_reconfigure_all mul_1_05f [] p = (p, [])"
| "on_reconfigure_all mul_1_05f ((status, msg) # rest) p =
     (let (p1, t1) = on_reconfigure mul_1_05f status msg p;
          (p2, t2) = on_reconfigure_all mul_1_05f rest p1
      in (p2, t1 @ t2))"

subsection \<open>init\<close>

text \<open>
  \<open>lt::VideoEncodeParamsHelper\<close> (params_helper.h, not among the sources): the values its
  accessors return, each under the accessor's name.
\<close>

record VideoEncodeParamsHelper =
  params_width :: u32
  params_height :: u32
  params_codec :: VideoCodecType
  params_fps :: u32
  params_bitrate :: u32
  params_qmin :: "u32 \<times> u32 \<times> u32"
  params_qmax :: "u32 \<times> u32 \<times> u32"
  params_vbvbufsize :: "u32 option"
  params_vbvinit :: "u32 option"
  params_gop :: u32
  params_rc :: RcMode
  params_preset :: Preset

text \<open>
  \<open>NvEncParamsHelper\<close>. The \<open>default\<close> branches carry \<open>assert(false)\<close> followed by a
  \<open>return\<close>; the value returned there (the build without assertions) is the one given.
\<close>

definition NvEncParamsHelper_maxbitrate :: "(u32 \<Rightarrow> u32) \<Rightarrow> VideoEncodeParamsHelper \<Rightarrow> u32" where
  "NvEncParamsHelper_maxbitrate mul_1_05f params = mul_1_05f (params_bitrate params)"

definition NvEncParamsHelper_qmin :: "VideoEncodeParamsHelper \<Rightarrow> NV_ENC_QP" where
  "NvEncParamsHelper_qmin params =
     (case params_qmin params of (q0, q1, q2) \<Rightarrow> \<lparr>qpInterP = q0, qpInterB = q1, qpIntra = q2\<rparr>)"

definition NvEncParamsHelper_qmax :: "VideoEncodeParamsHelper \<Rightarrow> NV_ENC_QP" where
  "NvEncParamsHelper_qmax params =
     (case params_qmax params of (q0, q1, q2) \<Rightarrow> \<lparr>qpInterP = q0, qpInterB = q1, qpIntra = q2\<rparr>)"

definition NvEncParamsHelper_rc :: "VideoEncodeParamsHelper \<Rightarrow> NV_ENC_PARAMS_RC_MODE" where
  "NvEncParamsHelper_rc params =
     (case params_rc params of
        CBR \<Rightarrow> NV_ENC_PARAMS_RC_CBR
      | VBR \<Rightarrow> NV_ENC_PARAMS_RC_VBR
      | RcMode_Other _ \<Rightarrow> NV_ENC_PARAMS_RC_CBR)"

definition NvEncParamsHelper_preset :: "VideoEncodeParamsHelper \<Rightarrow> GUID" where
  "NvEncParamsHelper_preset params =
     (case params_preset params of
        Balanced \<Rightarrow> NV_ENC_PRESET_LOW_LATENCY_DEFAULT_GUID
      | Speed \<Rightarrow> NV_ENC_PRESET_LOW_LATENCY_HP_GUID
      | Quality \<Rightarrow> NV_ENC_PRESET_LOW_LATENCY_HQ_GUID
      | Preset_Other _ \<Rightarrow> NV_ENC_PRESET_LOW_LATENCY_DEFAULT_GUID)"

definition NvEncParamsHelper_codec :: "VideoEncodeParamsHelper \<Rightarrow> GUID" where
  "NvEncParamsHelper_codec params =
     (case params_codec params of
        H264 \<Rightarrow> NV_ENC_CODEC_H264_GUID
      | H265 \<Rightarrow> NV_ENC_CODEC_HEVC_GUID
      | VideoCodecType_Other _ \<Rightarrow> NV_ENC_CODEC_H264_GUID)"

text \<open>
  The version macros of the vendored nvEncodeAPI.h, and what the encoder runtime and the
  OS answer to each call \<open>init\<close> makes. A \<open>getFunc\<close> or \<open>load\<close> field is true when the
  pointer returned is not null; \<open>presetCfg\<close> is \<open>preset_config.presetCfg\<close> as
  \<open>nvEncGetEncodePresetConfig\<close> leaves it; the \<open>encoder\<close> and \<open>buffer\<close> fields are the
  out-parameters after the call.
\<close>

record NvSdk =
  NVENCAPI_MAJOR_VERSION :: u32
  NVENCAPI_MINOR_VERSION :: u32

record InitDriver =
  load_library :: bool
  getFunc_GetMaxSupportedVersion :: bool
  GetMaxSupportedVersion_status :: NVENCSTATUS
  machine_version :: u32
  getFunc_CreateInstance :: bool
  CreateInstance_status :: NVENCSTATUS
  has_nvEncOpenEncodeSessionEx :: bool
  OpenEncodeSessionEx_status :: NVENCSTATUS
  OpenEncodeSessionEx_encoder :: "handle option"
  presetCfg :: NV_ENC_CONFIG
  InitializeEncoder_status :: NVENCSTATUS
  CreateEventA_result :: "handle option"
  CreateBitstreamBuffer_status :: NVENCSTATUS
  CreateBitstreamBuffer_buffer :: "handle option"

definition loadNvApi :: "NvSdk \<Rightarrow> InitDriver \<Rightarrow> bool \<times> NvEvent list" where
  "loadNvApi sdk drv =
     (if \<not> load_library drv then (False, [])
      else if \<not> getFunc_GetMaxSupportedVersion drv
      then (False, [LOG_ERR ''Load NvEncodeAPIGetMaxSupportedVersion failed''])
      else
        let sdk_version = push_bit 4 (NVENCAPI_MAJOR_VERSION sdk) OR NVENCAPI_MINOR_VERSION sdk;
            t = [Call_NvEncodeAPIGetMaxSupportedVersion]
        in if GetMaxSupportedVersion_status drv \<noteq> NV_ENC_SUCCESS
           then (False, t @ [LOG_ERR ''NvEncodeAPIGetMaxSupportedVersion failed with''])
           else if machine_version drv < sdk_version
           then (False, t @ [LOG_ERR ''Nvidia GPU driver too old!''])
           else if \<not> getFunc_CreateInstance drv
           then (False, t @ [LOG_ERR ''Load NvEncodeAPICreateInstance failed''])
           else if CreateInstance_status drv \<noteq> NV_ENC_SUCCESS
           then (False, t @ [Call_NvEncodeAPICreateInstance,
                             LOG_ERR ''NvEncodeAPICreateInstance failed with''])
           else (True, t @ [Call_NvEncodeAPICreateInstance]))"

definition is_10bit :: "NV_ENC_BUFFER_FORMAT \<Rightarrow> bool" where
  "is_10bit fmt =
     (fmt = NV_ENC_BUFFER_FORMAT_YUV420_10BIT \<or> fmt = NV_ENC_BUFFER_FORMAT_YUV444_10BIT)"

definition is_yuv444 :: "NV_ENC_BUFFER_FORMAT \<Rightarrow> bool" where
  "is_yuv444 fmt =
     (fmt = NV_ENC_BUFFER_FORMAT_YUV444 \<or> fmt = NV_ENC_BUFFER_FORMAT_YUV444_10BIT)"

text \<open>
  \<open>generateEncodeParams\<close>: the initialize params it returns, the \<open>encode_config\<close> it leaves
  behind its reference parameter, and the one call it makes, whose status it drops.
\<close>

definition generateEncodeParams ::
  "(u32 \<Rightarrow> u32) \<Rightarrow> InitDriver \<Rightarrow> VideoEncodeParamsHelper \<Rightarrow> NvD3d11EncoderImpl
     \<Rightarrow> NV_ENC_INITIALIZE_PARAMS \<times> NV_ENC_CONFIG \<times> NvEvent list" where
  "generateEncodeParams mul_1_05f drv helper s =
     (let params = \<lparr>encodeGUID = NvEncParamsHelper_codec helper,
                     presetGUID = NvEncParamsHelper_preset helper,
                     encodeWidth = width s, encodeHeight = height s,
                     darWidth = width s, darHeight = height s,
                     maxEncodeWidth = width s, maxEncodeHeight = height s,
                     frameRateNum = params_fps helper, frameRateDen = 1,
                     enablePTD = 1, reportSliceOffsets = 0, enableSubFrameWrite = 0,
                     enableEncodeAsync = async s\<rparr>;
          t = [Call_nvEncGetEncodePresetConfig (nvencoder s) (encodeGUID params) (presetGUID params)];
          c0 = presetCfg drv;
          rc0 = (rcParams c0)
                  \<lparr>rateControlMode := NvEncParamsHelper_rc helper,
                   averageBitRate := params_bitrate helper,
                   maxBitRate := NvEncParamsHelper_maxbitrate mul_1_05f helper,
                   minQP := NvEncParamsHelper_qmin helper,
                   enableMinQP := True,
                   maxQP := NvEncParamsHelper_qmax helper,
                   enableMaxQP := True\<rparr>;
          rc1 = (case params_vbvbufsize helper of
                   Some v \<Rightarrow> rc0\<lparr>vbvBufferSize := v\<rparr> | None \<Rightarrow> rc0);
          rc2 = (case params_vbvinit helper of
                   Some v \<Rightarrow> rc1\<lparr>vbvInitialDelay := v\<rparr> | None \<Rightarrow> rc1);
          rc3 = (if presetGUID params \<noteq> NV_ENC_PRESET_LOSSLESS_DEFAULT_GUID
                    \<and> presetGUID params \<noteq> NV_ENC_PRESET_LOSSLESS_HP_GUID
                 then rc2\<lparr>constQP := \<lparr>qpInterP = 28, qpInterB = 31, qpIntra = 25\<rparr>\<rparr>
                 else rc2);
          c1 = c0\<lparr>frameIntervalP := 1, gopLength := NVENC_INFINITE_GOPLENGTH, rcParams := rc3\<rparr>;
          c2 = (if encodeGUID params = NV_ENC_CODEC_H264_GUID then
                  (let h0 = h264Config c1;
                       h1 = (if is_yuv444 (buffer_format s)
                             then h0\<lparr>h264_chromaFormatIDC := 3\<rparr> else h0)
                   in c1\<lparr>h264Config := h1\<lparr>h264_idrPeriod := gopLength c1,
                                            h264_maxNumRefFrames := 0,
                                            h264_sliceMode := 3,
                                            h264_sliceModeData := 1\<rparr>\<rparr>)
                else if encodeGUID params = NV_ENC_CODEC_HEVC_GUID then
                  (let h0 = (hevcConfig c1)
                              \<lparr>hevc_pixelBitDepthMinus8 :=
                                 (if is_10bit (buffer_format s) then 2 else 0)\<rparr>;
                       h1 = (if is_yuv444 (buffer_format s)
                             then h0\<lparr>hevc_chromaFormatIDC := 3\<rparr> else h0)
                   in c1\<lparr>hevcConfig := h1\<lparr>hevc_idrPeriod := gopLength c1,
                                            hevc_maxNumRefFramesInDPB := 0,
                                            hevc_sliceMode := 3,
                                            hevc_sliceModeData := 1\<rparr>\<rparr>)
                else c1)
      in (params, c2, t))"

definition initBuffers :: "InitDriver \<Rightarrow> NvD3d11EncoderImpl \<Rightarrow> bool \<times> NvD3d11EncoderImpl \<times> NvEvent list" where
  "initBuffers drv s =
     (let t = Call_nvEncCreateBitstreamBuffer (nvencoder s)
              # (if CreateBitstreamBuffer_status drv \<noteq> NV_ENC_SUCCESS
                 then [LOG_ERR ''nvEncCreateBitstreamBuffer failed with'']
                 else [])
      in (True, s\<lparr>bitstream_output_buffer := CreateBitstreamBuffer_buffer drv\<rparr>, t))"

text \<open>
  \<open>NvD3d11EncoderImpl::init\<close>; \<open>NvD3d11Encoder::init\<close> forwards to it. The result is what
  \<open>init\<close> returns, the object as it leaves it, and its effects.
\<close>

definition init ::
  "(u32 \<Rightarrow> u32) \<Rightarrow> NvSdk \<Rightarrow> InitDriver \<Rightarrow> VideoEncodeParamsHelper \<Rightarrow> NvD3d11EncoderImpl
     \<Rightarrow> bool \<times> NvD3d11EncoderImpl \<times> NvEvent list" where
  "init mul_1_05f sdk drv params s0 =
     (let s1 = s0\<lparr>width := params_width params, height := params_height params,
                  codec_type := params_codec params\<rparr>
      in if codec_type s1 = H264 \<and> is_10bit (buffer_format s1)
         then (False, s1, [LOG_ERR ''Unsupported buffer format when using h264''])
         else
           (case loadNvApi sdk drv of
              (False, t1) \<Rightarrow> (False, s1, t1)
            | (True, t1) \<Rightarrow>
                if \<not> has_nvEncOpenEncodeSessionEx drv
                then (False, s1, t1 @ [LOG_ERR ''nvEncodeAPI not found''])
                else if OpenEncodeSessionEx_status drv \<noteq> NV_ENC_SUCCESS
                then (False, s1, t1 @ [Call_nvEncOpenEncodeSessionEx,
                                       LOG_ERR ''nvEncOpenEncodeSessionEx failed with''])
                else
                  (let s2 = s1\<lparr>nvencoder := OpenEncodeSessionEx_encoder drv\<rparr>;
                       (ip, cfg, tg) = generateEncodeParams mul_1_05f drv params s2;
                       s3 = s2\<lparr>init_params := ip, encode_config := cfg\<rparr>;
                       t2 = t1 @ [Call_nvEncOpenEncodeSessionEx] @ tg
                              @ [Call_nvEncInitializeEncoder (nvencoder s3) (init_params s3)
                                   (encode_config s3)]
                   in if InitializeEncoder_status drv \<noteq> NV_ENC_SUCCESS
                      then (False, s3, t2 @ [LOG_ERR ''nvEncInitializeEncoder failed with''])
                      else
                        (let s4 = (if async s3 then s3\<lparr>event := CreateEventA_result drv\<rparr> else s3);
                             t3 = t2 @ (if async s3
                                        then [Call_nvEncRegisterAsyncEvent (nvencoder s4) (event s4)]
                                        else [])
                         in (case initBuffers drv s4 of
                               (False, s5, tb) \<Rightarrow> (False, s5, t3 @ tb)
                             | (True, s5, tb) \<Rightarrow>
                                 (True, s5, t3 @ tb @ [LOG_INFO ''NvD3d11Encoder initialized'']))))))"

subsection \<open>encodeOneFrame\<close>

text \<open>
  What the runtime answers to the calls of one \<open>encodeOneFrame\<close>: each status, the
  out-parameters of the register, map and lock calls, and the \<open>picType\<close> found in
  \<open>encode_stats\<close> after \<open>nvEncGetEncodeStats\<close>.
\<close>

record EncodeDriver =
  RegisterResource_status :: NVENCSTATUS
  RegisterResource_registered :: "handle option"
  MapInputResource_status :: NVENCSTATUS
  MapInputResource_mapped :: "handle option"
  EncodePicture_status :: NVENCSTATUS
  WaitForSingleObject_failed :: bool
  LockBitstream_status :: NVENCSTATUS
  LockBitstream_bytes :: "8 word list"
  UnlockBitstream_status :: NVENCSTATUS
  UnmapInputResource_status :: NVENCSTATUS
  UnregisterResource_status :: NVENCSTATUS
  GetEncodeStats_picType :: NV_ENC_PIC_TYPE

text \<open>The two members of \<open>ltproto::client2worker::VideoFrame\<close> the encoder sets.\<close>

record VideoFrame =
  frame :: "8 word list"
  is_keyframe :: bool

definition initInputFrame ::
  "EncodeDriver \<Rightarrow> handle option \<Rightarrow> NvD3d11EncoderImpl
     \<Rightarrow> NV_ENC_MAP_INPUT_RESOURCE option \<times> NvEvent list" where
  "initInputFrame drv input_frame s =
     (let t1 = [Call_nvEncRegisterResource (nvencoder s) input_frame]
      in if RegisterResource_status drv \<noteq> NV_ENC_SUCCESS
         then (None, t1 @ [LOG_ERR ''nvEncRegisterResource failed with''])
         else
           (let mapped = \<lparr>registeredResource = RegisterResource_registered drv,
                           mappedResource = None\<rparr>;
                t2 = t1 @ [Call_nvEncMapInputResource (nvencoder s) (registeredResource mapped)]
            in if MapInputResource_status drv \<noteq> NV_ENC_SUCCESS
               then (None, t2 @ [LOG_ERR ''nvEncMapInputResource failed with''])
               else (Some (mapped\<lparr>mappedResource := MapInputResource_mapped drv\<rparr>), t2)))"

definition uninitInputFrame ::
  "EncodeDriver \<Rightarrow> NV_ENC_MAP_INPUT_RESOURCE \<Rightarrow> NvD3d11EncoderImpl \<Rightarrow> bool \<times> NvEvent list" where
  "uninitInputFrame drv resource s =
     (let t1 = [Call_nvEncUnmapInputResource (nvencoder s) resource]
      in if UnmapInputResource_status drv \<noteq> NV_ENC_SUCCESS
         then (False, t1 @ [LOG_ERR ''nvEncUnmapInputResource failed with''])
         else
           (case registeredResource resource of
              None \<Rightarrow> (True, t1)
            | Some r \<Rightarrow>
                if UnregisterResource_status drv \<noteq> NV_ENC_SUCCESS
                then (False, t1 @ [Call_nvEncUnregisterResource (nvencoder s) r,
                                   LOG_ERR ''nvEncUnregisterResource failed with''])
                else (True, t1 @ [Call_nvEncUnregisterResource (nvencoder s) r])))"

text \<open>
  \<open>NvD3d11EncoderImpl::encodeOneFrame\<close>: the frame it returns (\<open>None\<close> for \<open>nullptr\<close>) and
  its effects. It changes no member of the object.
\<close>

definition encodeOneFrame ::
  "EncodeDriver \<Rightarrow> handle option \<Rightarrow> bool \<Rightarrow> NvD3d11EncoderImpl
     \<Rightarrow> VideoFrame option \<times> NvEvent list" where
  "encodeOneFrame drv input_frame request_iframe s =
     (case initInputFrame drv input_frame s of
        (None, t0) \<Rightarrow> (None, t0)
      | (Some mapped_resource, t0) \<Rightarrow>
          (let params = \<lparr>encodePicFlags =
                            (if request_iframe
                             then NV_ENC_PIC_FLAG_FORCEIDR OR NV_ENC_PIC_FLAG_OUTPUT_SPSPPS
                             else 0),
                          inputBuffer = mappedResource mapped_resource,
                          bufferFmt = buffer_format s,
                          inputWidth = width s,
                          inputHeight = height s,
                          outputBitstream = bitstream_output_buffer s,
                          completionEvent = event s\<rparr>;
               t1 = t0 @ [Call_nvEncEncodePicture (nvencoder s) params]
           in if EncodePicture_status drv \<noteq> NV_ENC_SUCCESS
              then (None, t1 @ [LOG_ERR ''nvEncEncodePicture failed with''])
              else if async s \<and> WaitForSingleObject_failed drv
              then (None, t1 @ [LOG_ERR ''Wait encode event timeout''])
              else
                (let t2 = t1 @ [Call_nvEncLockBitstream (nvencoder s) (bitstream_output_buffer s)]
                 in if LockBitstream_status drv \<noteq> NV_ENC_SUCCESS
                    then (None, t2 @ [LOG_ERR ''nvEncLockBitstream failed with''])
                    else
                      (let out_frame = \<lparr>frame = LockBitstream_bytes drv, is_keyframe = False\<rparr>;
                           t3 = t2 @ [Call_nvEncUnlockBitstream (nvencoder s)
                                        (bitstream_output_buffer s)]
                       in if UnlockBitstream_status drv \<noteq> NV_ENC_SUCCESS
                          then (None, t3 @ [LOG_ERR ''nvEncUnlockBitstream failed with''])
                          else
                            (case uninitInputFrame drv mapped_resource s of
                               (False, t4) \<Rightarrow> (None, t3 @ t4)
                             | (True, t4) \<Rightarrow>
                                 (let t5 = t3 @ t4 @ [Call_nvEncGetEncodeStats (nvencoder s)
                                                        (outputBitstream params)];
                                      picType = GetEncodeStats_picType drv;
                                      keyframe = (picType = NV_ENC_PIC_TYPE_I
                                                  \<or> picType = NV_ENC_PIC_TYPE_IDR)
                                  in (Some (out_frame\<lparr>is_keyframe := keyframe\<rparr>), t5)))))))"

subsection \<open>The public encoder\<close>

text \<open>
  Modelled from the spec: \<open>requestKeyframe\<close> and \<open>needKeyframe\<close> belong to the base class
  \<open>VideoEncoder\<close>, whose files are not among the sources. Section 4.3: "requestKeyframe():
  forces the next frame to be a keyframe". The request is a flag that \<open>requestKeyframe\<close>
  sets and that \<open>needKeyframe\<close> returns and clears, so that it reaches the next frame only.
\<close>

record NvD3d11Encoder =
  request_keyframe :: bool
  impl :: NvD3d11EncoderImpl

text \<open>Modelled from the spec: \<open>requestKeyframe()\<close> records the request.\<close>

definition requestKeyframe :: "NvD3d11Encoder \<Rightarrow> NvD3d11Encoder" where
  "requestKeyframe e = e\<lparr>request_keyframe := True\<rparr>"

text \<open>
  Modelled from the spec: \<open>needKeyframe()\<close> tells whether a keyframe was requested and
  clears the request.
\<close>

definition needKeyframe :: "NvD3d11Encoder \<Rightarrow> bool \<times> NvD3d11Encoder" where
  "needKeyframe e = (request_keyframe e, e\<lparr>request_keyframe := False\<rparr>)"

text \<open>\<open>NvD3d11Encoder::encodeFrame\<close>: \<open>impl_->encodeOneFrame(input_frame, needKeyframe())\<close>.\<close>

definition encodeFrame ::
  "EncodeDriver \<Rightarrow> handle option \<Rightarrow> NvD3d11Encoder
     \<Rightarrow> VideoFrame option \<times> NvD3d11Encoder \<times> NvEvent list" where
  "encodeFrame drv input_frame e =
     (let (need, e1) = needKeyframe e;
          (out, t) = encodeOneFrame drv input_frame need (impl e1)
      in (out, e1, t))"


section \<open>The service manager of the app (service_manager.cpp)\<close>

text \<open>
  The enumerators of \<open>ltproto::ErrorCode\<close> other than \<open>Success\<close> are declared outside the
  sources; each is represented by its number. \<open>ServiceStatus\<close> has the two values the
  source names.
\<close>

datatype ErrorCode = Success | ErrorCode_Other nat

datatype ServiceStatus = Up | Down

text \<open>
  A message of the service pipe, by its type: the device id for the two messages whose
  handler reads it, the status for \<open>ServiceStatus\<close>, and the message object itself (an
  opaque token) where the handler passes it on whole.
\<close>

datatype PipeMessage =
    ConfirmConnection int
  | AcceptedConnection nat
  | DisconnectedConnection int
  | ConnectionStatus nat
  | ServiceStatusMessage ErrorCode
  | UnknownMessage u32

text \<open>The callbacks into the UI that \<open>ServiceManager\<close> holds, as the calls made to them.\<close>

datatype AppCallback =
    on_confirm_connection int
  | on_accepted_connection nat
  | on_disconnected_connection int
  | on_connection_status nat
  | on_service_status ServiceStatus

text \<open>The pipe's descriptor \<open>fd_\<close> and the callbacks made so far, oldest first.\<close>

record ServiceManager =
  fd :: u32
  callbacks :: "AppCallback list"

definition onPipeAccepted :: "u32 \<Rightarrow> ServiceManager \<Rightarrow> ServiceManager" where
  "onPipeAccepted new_fd m = m\<lparr>fd := new_fd\<rparr>"

definition onPipeDisconnected :: "u32 \<Rightarrow> ServiceManager \<Rightarrow> ServiceManager" where
  "onPipeDisconnected closed_fd m =
     m\<lparr>fd := 0xffffffff, callbacks := callbacks m @ [on_service_status Down]\<rparr>"

definition onServiceStatus :: "ErrorCode \<Rightarrow> ServiceManager \<Rightarrow> ServiceManager" where
  "onServiceStatus status m =
     (if status = Success
      then m\<lparr>callbacks := callbacks m @ [on_service_status Up]\<rparr>
      else m\<lparr>callbacks := callbacks m @ [on_service_status Up]\<rparr>)"

definition onPipeMessage :: "u32 \<Rightarrow> PipeMessage \<Rightarrow> ServiceManager \<Rightarrow> ServiceManager" where
  "onPipeMessage from_fd msg m =
     (case msg of
        ConfirmConnection device_id \<Rightarrow>
          m\<lparr>callbacks := callbacks m @ [on_confirm_connection device_id]\<rparr>
      | AcceptedConnection obj \<Rightarrow>
          m\<lparr>callbacks := callbacks m @ [on_accepted_connection obj]\<rparr>
      | DisconnectedConnection device_id \<Rightarrow>
          m\<lparr>callbacks := callbacks m @ [on_disconnected_connection device_id]\<rparr>
      | ConnectionStatus obj \<Rightarrow>
          m\<lparr>callbacks := callbacks m @ [on_connection_status obj]\<rparr>
      | ServiceStatusMessage status \<Rightarrow> onServiceStatus status m
      | UnknownMessage _ \<Rightarrow> m)"

section \<open>Replaying input on Windows (win_send_input.cpp)\<close>

subsection \<open>Constants of the Windows headers\<close>

definition KEYEVENTF_EXTENDEDKEY :: u32 where "KEYEVENTF_EXTENDEDKEY = 0x0001"
definition KEYEVENTF_KEYUP :: u32 where "KEYEVENTF_KEYUP = 0x0002"
definition KEYEVENTF_SCANCODE :: u32 where "KEYEVENTF_SCANCODE = 0x0008"
definition MAPVK_VK_TO_VSC_EX :: u32 where "MAPVK_VK_TO_VSC_EX = 4"

definition MOUSEEVENTF_MOVE :: u32 where "MOUSEEVENTF_MOVE = 0x0001"
definition MOUSEEVENTF_LEFTDOWN :: u32 where "MOUSEEVENTF_LEFTDOWN = 0x0002"
definition MOUSEEVENTF_LEFTUP :: u32 where "MOUSEEVENTF_LEFTUP = 0x0004"
definition MOUSEEVENTF_RIGHTDOWN :: u32 where "MOUSEEVENTF_RIGHTDOWN = 0x0008"
definition MOUSEEVENTF_RIGHTUP :: u32 where "MOUSEEVENTF_RIGHTUP = 0x0010"
definition MOUSEEVENTF_MIDDLEDOWN :: u32 where "MOUSEEVENTF_MIDDLEDOWN = 0x0020"
definition MOUSEEVENTF_MIDDLEUP :: u32 where "MOUSEEVENTF_MIDDLEUP = 0x0040"
definition MOUSEEVENTF_XDOWN :: u32 where "MOUSEEVENTF_XDOWN = 0x0080"
definition MOUSEEVENTF_XUP :: u32 where "MOUSEEVENTF_XUP = 0x0100"
definition MOUSEEVENTF_WHEEL :: u32 where "MOUSEEVENTF_WHEEL = 0x0800"
definition MOUSEEVENTF_ABSOLUTE :: u32 where "MOUSEEVENTF_ABSOLUTE = 0x8000"
definition XBUTTON1 :: u32 where "XBUTTON1 = 0x0001"
definition XBUTTON2 :: u32 where "XBUTTON2 = 0x0002"

definition VK_BACK :: int where "VK_BACK = 0x08"
definition VK_TAB :: int where "VK_TAB = 0x09"
definition VK_RETURN :: int where "VK_RETURN = 0x0D"
definition VK_PAUSE :: int where "VK_PAUSE = 0x13"
definition VK_CAPITAL :: int where "VK_CAPITAL = 0x14"
definition VK_ESCAPE :: int where "VK_ESCAPE = 0x1B"
definition VK_SPACE :: int where "VK_SPACE = 0x20"
definition VK_PRIOR :: int where "VK_PRIOR = 0x21"
definition VK_NEXT :: int where "VK_NEXT = 0x22"
definition VK_END :: int where "VK_END = 0x23"
definition VK_HOME :: int where "VK_HOME = 0x24"
definition VK_LEFT :: int where "VK_LEFT = 0x25"
definition VK_UP :: int where "VK_UP = 0x26"
definition VK_RIGHT :: int where "VK_RIGHT = 0x27"
definition VK_DOWN :: int where "VK_DOWN = 0x28"
definition VK_SNAPSHOT :: int where "VK_SNAPSHOT = 0x2C"
definition VK_INSERT :: int where "VK_INSERT = 0x2D"
definition VK_DELETE :: int where "VK_DELETE = 0x2E"
definition VK_LWIN :: int where "VK_LWIN = 0x5B"
definition VK_RWIN :: int where "VK_RWIN = 0x5C"
definition VK_APPS :: int where "VK_APPS = 0x5D"
definition VK_NUMPAD0 :: int where "VK_NUMPAD0 = 0x60"
definition VK_NUMPAD1 :: int where "VK_NUMPAD1 = 0x61"
definition VK_MULTIPLY :: int where "VK_MULTIPLY = 0x6A"
definition VK_ADD :: int where "VK_ADD = 0x6B"
definition VK_SUBTRACT :: int where "VK_SUBTRACT = 0x6D"
definition VK_DECIMAL :: int where "VK_DECIMAL = 0x6E"
definition VK_DIVIDE :: int where "VK_DIVIDE = 0x6F"
definition VK_F1 :: int where "VK_F1 = 0x70"
definition VK_NUMLOCK :: int where "VK_NUMLOCK = 0x90"
definition VK_SCROLL :: int where "VK_SCROLL = 0x91"
definition VK_LSHIFT :: int where "VK_LSHIFT = 0xA0"
definition VK_RSHIFT :: int where "VK_RSHIFT = 0xA1"
definition VK_LCONTROL :: int where "VK_LCONTROL = 0xA2"
definition VK_RCONTROL :: int where "VK_RCONTROL = 0xA3"
definition VK_LMENU :: int where "VK_LMENU = 0xA4"
definition VK_RMENU :: int where "VK_RMENU = 0xA5"
definition VK_OEM_1 :: int where "VK_OEM_1 = 0xBA"
definition VK_OEM_PLUS :: int where "VK_OEM_PLUS = 0xBB"
definition VK_OEM_COMMA :: int where "VK_OEM_COMMA = 0xBC"
definition VK_OEM_MINUS :: int where "VK_OEM_MINUS = 0xBD"
definition VK_OEM_PERIOD :: int where "VK_OEM_PERIOD = 0xBE"
definition VK_OEM_2 :: int where "VK_OEM_2 = 0xBF"
definition VK_OEM_3 :: int where "VK_OEM_3 = 0xC0"
definition VK_OEM_4 :: int where "VK_OEM_4 = 0xDB"
definition VK_OEM_5 :: int where "VK_OEM_5 = 0xDC"
definition VK_OEM_6 :: int where "VK_OEM_6 = 0xDD"
definition VK_OEM_7 :: int where "VK_OEM_7 = 0xDE"

subsection \<open>The scancode table\<close>

text \<open>
  \<open>lt::Scancode\<close> is declared in scancode.h, which is not among the sources. The table
  names its enumerators and compares and subtracts their numbers, so the enumerators the
  table names are a datatype and their numbers are a parameter \<open>sc\<close> of the table; a
  scancode that arrives is a number (the enumeration's underlying \<open>int\<close>).
\<close>

datatype ScancodeName =
    SCANCODE_A | SCANCODE_Z | SCANCODE_1 | SCANCODE_0 | SCANCODE_F1 | SCANCODE_F12
  | SCANCODE_KP_1 | SCANCODE_KP_9 | SCANCODE_KP_PERIOD | SCANCODE_RETURN | SCANCODE_ESCAPE
  | SCANCODE_BACKSPACE | SCANCODE_TAB | SCANCODE_SPACE | SCANCODE_MINUS | SCANCODE_EQUALS
  | SCANCODE_LEFTBRACKET | SCANCODE_RIGHTBRACKET | SCANCODE_BACKSLASH | SCANCODE_NONUSHASH
  | SCANCODE_SEMICOLON | SCANCODE_APOSTROPHE | SCANCODE_GRAVE | SCANCODE_COMMA
  | SCANCODE_PERIOD | SCANCODE_SLASH | SCANCODE_CAPSLOCK | SCANCODE_PRINTSCREEN
  | SCANCODE_SCROLLLOCK | SCANCODE_PAUSE | SCANCODE_INSERT | SCANCODE_HOME | SCANCODE_PAGEUP
  | SCANCODE_DELETE | SCANCODE_END | SCANCODE_PAGEDOWN | SCANCODE_RIGHT | SCANCODE_LEFT
  | SCANCODE_DOWN | SCANCODE_UP | SCANCODE_NUMLOCKCLEAR | SCANCODE_KP_DIVIDE
  | SCANCODE_KP_MULTIPLY | SCANCODE_KP_MINUS | SCANCODE_KP_PLUS | SCANCODE_KP_ENTER
  | SCANCODE_KP_0 | SCANCODE_KP_DECIMAL | SCANCODE_LCTRL | SCANCODE_LSHIFT | SCANCODE_LALT
  | SCANCODE_LGUI | SCANCODE_RCTRL | SCANCODE_RSHIFT | SCANCODE_RALT | SCANCODE_RGUI
  | SCANCODE_APPLICATION

text \<open>
  The rows of the \<open>switch\<close>, in the order of the source: the enumerator of the \<open>case\<close>
  label, the virtual key, \<open>use_scancode\<close> and \<open>extented\<close>.
\<close>

definition switch_rows :: "(ScancodeName \<times> int \<times> bool \<times> bool) list" where
  "switch_rows =
     [(SCANCODE_KP_PERIOD, VK_DECIMAL, True, False),
      (SCANCODE_RETURN, VK_RETURN, True, False),
      (SCANCODE_ESCAPE, VK_ESCAPE, True, False),
      (SCANCODE_BACKSPACE, VK_BACK, True, False),
      (SCANCODE_TAB, VK_TAB, True, False),
      (SCANCODE_SPACE, VK_SPACE, True, False),
      (SCANCODE_MINUS, VK_OEM_MINUS, True, False),
      (SCANCODE_EQUALS, VK_OEM_PLUS, True, False),
      (SCANCODE_LEFTBRACKET, VK_OEM_4, True, False),
      (SCANCODE_RIGHTBRACKET, VK_OEM_6, True, False),
      (SCANCODE_BACKSLASH, VK_OEM_5, True, False),
      (SCANCODE_NONUSHASH, VK_OEM_5, True, False),
      (SCANCODE_SEMICOLON, VK_OEM_1, True, False),
      (SCANCODE_APOSTROPHE, VK_OEM_7, True, False),
      (SCANCODE_GRAVE, VK_OEM_3, True, False),
      (SCANCODE_COMMA, VK_OEM_COMMA, True, False),
      (SCANCODE_PERIOD, VK_OEM_PERIOD, True, False),
      (SCANCODE_SLASH, VK_OEM_2, True, False),
      (SCANCODE_CAPSLOCK, VK_CAPITAL, True, False),
      (SCANCODE_PRINTSCREEN, VK_SNAPSHOT, True, False),
      (SCANCODE_SCROLLLOCK, VK_SCROLL, True, False),
      (SCANCODE_PAUSE, VK_PAUSE, False, False),
      (SCANCODE_INSERT, VK_INSERT, True, True),
      (SCANCODE_HOME, VK_HOME, True, True),
      (SCANCODE_PAGEUP, VK_PRIOR, True, True),
      (SCANCODE_DELETE, VK_DELETE, True, True),
      (SCANCODE_END, VK_END, True, True),
      (SCANCODE_PAGEDOWN, VK_NEXT, True, True),
      (SCANCODE_RIGHT, VK_RIGHT, True, True),
      (SCANCODE_LEFT, VK_LEFT, True, True),
      (SCANCODE_DOWN, VK_DOWN, True, True),
      (SCANCODE_UP, VK_UP, True, True),
      (SCANCODE_NUMLOCKCLEAR, VK_NUMLOCK, True, False),
      (SCANCODE_KP_DIVIDE, VK_DIVIDE, True, True),
      (SCANCODE_KP_MULTIPLY, VK_MULTIPLY, True, False),
      (SCANCODE_KP_MINUS, VK_SUBTRACT, True, False),
      (SCANCODE_KP_PLUS, VK_ADD, True, False),
      (SCANCODE_KP_ENTER, VK_RETURN, True, True),
      (SCANCODE_KP_0, VK_NUMPAD0, True, False),
      (SCANCODE_KP_DECIMAL, VK_DECIMAL, True, False),
      (SCANCODE_LCTRL, VK_LCONTROL, True, False),
      (SCANCODE_LSHIFT, VK_LSHIFT, True, False),
      (SCANCODE_LALT, VK_LMENU, True, False),
      (SCANCODE_LGUI, VK_LWIN, True, True),
      (SCANCODE_RCTRL, VK_RCONTROL, True, True),
      (SCANCODE_RSHIFT, VK_RSHIFT, True, False),
      (SCANCODE_RALT, VK_RMENU, True, True),
      (SCANCODE_RGUI, VK_RWIN, True, True),
      (SCANCODE_APPLICATION, VK_APPS, True, True)]"

text \<open>
  The \<open>switch\<close> over the rows: the row whose label has the scancode's number, or the
  \<open>default\<close> (the labels of a \<open>switch\<close> have distinct numbers, so at most one row matches).
\<close>

fun switch_scancode ::
  "(ScancodeName \<Rightarrow> int) \<Rightarrow> (ScancodeName \<times> int \<times> bool \<times> bool) list \<Rightarrow> int
     \<Rightarrow> u16 \<times> bool \<times> bool \<times> bool" where
  "switch_scancode sc [] scancode = (0, False, False, False)"
| "switch_scancode sc ((label, vk, use_scancode, extented) # rows) scancode =
     (if scancode = sc label then (word_of_int vk, use_scancode, extented, True)
      else switch_scancode sc rows scancode)"

text \<open>
  \<open>scancode_to_winkey\<close>; the result is \<open>{win_key, use_scancode, extented, valid}\<close>. The
  character constants \<open>'A'\<close>, \<open>'1'\<close> and \<open>'0'\<close> are 65, 49 and 48; the sums are computed in
  \<open>int\<close> and narrowed to \<open>WORD\<close>.
\<close>

definition scancode_to_winkey ::
  "(ScancodeName \<Rightarrow> int) \<Rightarrow> int \<Rightarrow> u16 \<times> bool \<times> bool \<times> bool" where
  "scancode_to_winkey sc scancode =
     (if scancode \<ge> sc SCANCODE_A \<and> scancode \<le> sc SCANCODE_Z
      then (word_of_int (65 + scancode - sc SCANCODE_A), True, False, True)
      else if scancode \<ge> sc SCANCODE_1 \<and> scancode < sc SCANCODE_0
      then (word_of_int (49 + scancode - sc SCANCODE_1), True, False, True)
      else if scancode = sc SCANCODE_0
      then (48, True, False, True)
      else if scancode \<ge> sc SCANCODE_F1 \<and> scancode \<le> sc SCANCODE_F12
      then (word_of_int (VK_F1 + scancode - sc SCANCODE_F1), True, False, True)
      else if scancode \<ge> sc SCANCODE_KP_1 \<and> scancode \<le> sc SCANCODE_KP_9
      then (word_of_int (VK_NUMPAD1 + scancode - sc SCANCODE_KP_1), True, False, True)
      else switch_scancode sc switch_rows scancode)"

subsection \<open>Keyboard events\<close>

record KeyboardEvent =
  key :: u32
  down :: bool

record KEYBDINPUT =
  wVk :: u16
  wScan :: u16
  ki_dwFlags :: u32
  ki_time :: u32

record MOUSEINPUT =
  dx :: u32
  dy :: u32
  mouseData :: u32
  mi_dwFlags :: u32
  mi_time :: u32

datatype INPUT = INPUT_KEYBOARD KEYBDINPUT | INPUT_MOUSE MOUSEINPUT

text \<open>
  \<open>Win32SendInput::onKeyboardEvent\<close>. The result lists the \<open>INPUT\<close> of every \<open>SendInput\<close>
  call made (each call passes one). \<open>MapVirtualKeyW\<close> is the OS's function.
  \<open>static_cast<Scancode>\<close> of the \<open>uint32\<close> key reads it as the \<open>int\<close> of the same bits.
\<close>

definition onKeyboardEvent ::
  "(ScancodeName \<Rightarrow> int) \<Rightarrow> (u32 \<Rightarrow> u32 \<Rightarrow> u32) \<Rightarrow> KeyboardEvent \<Rightarrow> INPUT list" where
  "onKeyboardEvent sc MapVirtualKeyW keyboard =
     (case scancode_to_winkey sc (sint (key keyboard)) of
        (win_key, use_scancode, extented, valid) \<Rightarrow>
          if \<not> valid then []
          else
            (let ki0 = \<lparr>wVk = win_key, wScan = 0, ki_dwFlags = 0, ki_time = 0\<rparr>;
                 ki1 = (if use_scancode
                        then ki0\<lparr>wScan := ucast (MapVirtualKeyW (ucast win_key) MAPVK_VK_TO_VSC_EX),
                                 ki_dwFlags := KEYEVENTF_SCANCODE\<rparr>
                        else ki0);
                 ki2 = ki1\<lparr>ki_dwFlags :=
                              ki_dwFlags ki1 OR (if down keyboard then 0 else KEYEVENTF_KEYUP)\<rparr>;
                 ki3 = ki2\<lparr>ki_dwFlags :=
                              ki_dwFlags ki2 OR (if extented then KEYEVENTF_EXTENDEDKEY else 0)\<rparr>
             in [INPUT_KEYBOARD (ki3\<lparr>ki_time := 0\<rparr>)]))"

subsection \<open>Mouse events\<close>

datatype MouseEvent_KeyFlag =
    MouseEvent_KeyFlag_LeftDown
  | MouseEvent_KeyFlag_LeftUp
  | MouseEvent_KeyFlag_RightDown
  | MouseEvent_KeyFlag_RightUp
  | MouseEvent_KeyFlag_MidDown
  | MouseEvent_KeyFlag_MidUp
  | MouseEvent_KeyFlag_X1Down
  | MouseEvent_KeyFlag_X1Up
  | MouseEvent_KeyFlag_X2Down
  | MouseEvent_KeyFlag_X2Up
  | MouseEvent_KeyFlag_Other nat

text \<open>
  \<open>ltproto::peer2peer::MouseEvent\<close>: every field is optional (\<open>has_x()\<close> is \<open>x \<noteq> None\<close>)
  and its getter returns zero when the field is absent. A \<open>float\<close> field holds a real
  number.
\<close>

record MouseEvent =
  key_falg :: "MouseEvent_KeyFlag option"
  x :: "real option"
  y :: "real option"
  delta_x :: "u32 option"
  delta_y :: "u32 option"
  delta_z :: "u32 option"

definition get_float :: "real option \<Rightarrow> real" where
  "get_float v = (case v of Some r \<Rightarrow> r | None \<Rightarrow> 0)"

definition get_int32 :: "u32 option \<Rightarrow> u32" where
  "get_int32 v = (case v of Some r \<Rightarrow> r | None \<Rightarrow> 0)"

definition button_flags :: "MouseEvent_KeyFlag \<Rightarrow> MOUSEINPUT \<Rightarrow> MOUSEINPUT" where
  "button_flags k mi =
     (case k of
        MouseEvent_KeyFlag_LeftDown \<Rightarrow> mi\<lparr>mi_dwFlags := mi_dwFlags mi OR MOUSEEVENTF_LEFTDOWN\<rparr>
      | MouseEvent_KeyFlag_LeftUp \<Rightarrow> mi\<lparr>mi_dwFlags := mi_dwFlags mi OR MOUSEEVENTF_LEFTUP\<rparr>
      | MouseEvent_KeyFlag_RightDown \<Rightarrow> mi\<lparr>mi_dwFlags := mi_dwFlags mi OR MOUSEEVENTF_RIGHTDOWN\<rparr>
      | MouseEvent_KeyFlag_RightUp \<Rightarrow> mi\<lparr>mi_dwFlags := mi_dwFlags mi OR MOUSEEVENTF_RIGHTUP\<rparr>
      | MouseEvent_KeyFlag_MidDown \<Rightarrow> mi\<lparr>mi_dwFlags := mi_dwFlags mi OR MOUSEEVENTF_MIDDLEDOWN\<rparr>
      | MouseEvent_KeyFlag_MidUp \<Rightarrow> mi\<lparr>mi_dwFlags := mi_dwFlags mi OR MOUSEEVENTF_MIDDLEUP\<rparr>
      | MouseEvent_KeyFlag_X1Down \<Rightarrow>
          mi\<lparr>mouseData := XBUTTON1, mi_dwFlags := mi_dwFlags mi OR MOUSEEVENTF_XDOWN\<rparr>
      | MouseEvent_KeyFlag_X1Up \<Rightarrow>
          mi\<lparr>mouseData := XBUTTON1, mi_dwFlags := mi_dwFlags mi OR MOUSEEVENTF_XUP\<rparr>
      | MouseEvent_KeyFlag_X2Down \<Rightarrow>
          mi\<lparr>mouseData := XBUTTON2, mi_dwFlags := mi_dwFlags mi OR MOUSEEVENTF_XDOWN\<rparr>
      | MouseEvent_KeyFlag_X2Up \<Rightarrow>
          mi\<lparr>mouseData := XBUTTON2, mi_dwFlags := mi_dwFlags mi OR MOUSEEVENTF_XUP\<rparr>
      | MouseEvent_KeyFlag_Other _ \<Rightarrow> mi)"

text \<open>
  \<open>Win32SendInput::onMouseEvent\<close>. \<open>to_abs v\<close> is the single-precision expression
  \<open>static_cast<LONG>(65535.0f * v)\<close>; \<open>absolute_mouse\<close> is what \<open>isAbsoluteMouse()\<close> returns.
  The result is the \<open>INPUT\<close> passed to the one \<open>SendInput\<close> call.
\<close>

definition onMouseEvent :: "(real \<Rightarrow> u32) \<Rightarrow> bool \<Rightarrow> MouseEvent \<Rightarrow> INPUT" where
  "onMouseEvent to_abs absolute_mouse mouse =
     (let mi0 = \<lparr>dx = 0, dy = 0, mouseData = 0, mi_dwFlags = 0, mi_time = 0\<rparr>;
          mi1 = (case key_falg mouse of Some k \<Rightarrow> button_flags k mi0 | None \<Rightarrow> mi0);
          mi2 = (if absolute_mouse then
                   (if x mouse \<noteq> None \<or> y mouse \<noteq> None
                    then mi1\<lparr>dx := to_abs (get_float (x mouse)),
                             dy := to_abs (get_float (y mouse)),
                             mi_dwFlags := mi_dwFlags mi1 OR (MOUSEEVENTF_ABSOLUTE OR MOUSEEVENTF_MOVE)\<rparr>
                    else mi1)
                 else
                   (if delta_x mouse \<noteq> None \<or> delta_y mouse \<noteq> None
                    then mi1\<lparr>dx := get_int32 (delta_x mouse),
                             dy := get_int32 (delta_y mouse),
                             mi_dwFlags := mi_dwFlags mi1 OR MOUSEEVENTF_MOVE\<rparr>
                    else mi1));
          mi3 = (case delta_z mouse of
                   Some z \<Rightarrow> mi2\<lparr>mouseData := z, mi_dwFlags := MOUSEEVENTF_WHEEL\<rparr>
                 | None \<Rightarrow> mi2)
      in INPUT_MOUSE (mi3\<lparr>mi_time := 0\<rparr>))"

section \<open>The display's description (ltlib, system.cpp on Windows)\<close>

record DEVMODE =
  dmPelsWidth :: u32
  dmPelsHeight :: u32
  dmDisplayFrequency :: u32

text \<open>
  \<open>DisplayOutputDesc\<close> is built as \<open>DisplayOutputDesc{width, height, frequency}\<close>; the first
  two fields carry a prefix here. The OS answers: \<open>EnumDisplaySettings\<close> gives the
  \<open>DEVMODE\<close> it filled in when it succeeds and \<open>None\<close> when it returns zero;
  \<open>GetDeviceCaps\<close> gives the two desktop resolutions.
\<close>

record DisplayOutputDesc =
  desc_width :: u32
  desc_height :: u32
  frequency :: u32

record DisplayOS =
  EnumDisplaySettings :: "DEVMODE option"
  DESKTOPHORZRES :: u32
  DESKTOPVERTRES :: u32

definition getScreenWidth :: "DisplayOS \<Rightarrow> u32" where
  "getScreenWidth os = DESKTOPHORZRES os"

definition getScreenHeight :: "DisplayOS \<Rightarrow> u32" where
  "getScreenHeight os = DESKTOPVERTRES os"

definition getDisplayOutputDesc :: "DisplayOS \<Rightarrow> DisplayOutputDesc" where
  "getDisplayOutputDesc os =
     (case EnumDisplaySettings os of
        Some dm \<Rightarrow>
          \<lparr>desc_width = dmPelsWidth dm,
           desc_height = dmPelsHeight dm,
           frequency = (if dmDisplayFrequency dm \<noteq> 0 then dmDisplayFrequency dm else 60)\<rparr>
      | None \<Rightarrow>
          \<lparr>desc_width = getScreenWidth os,
           desc_height = getScreenHeight os,
           frequency = 60\<rparr>)"


section \<open>The session coordinator\<close>

text \<open>
  Modelled from the spec: no source file holds the session state machine or its \<open>stop()\<close>
  (client.h declares the client's members only). The states and transitions are those of
  section 4.1; "emits status callbacks to the excluded UI layer on every state
  transition" is \<open>transition\<close>; \<open>stop\<close> follows section 4.1 ("always transitions to Closed,
  releasing pipelines and TransportChannel ... regardless of current state") and section 5
  ("marks the session Closed, causes all pending sends to be discarded"); \<open>Closed\<close> is
  final (section 8, "idempotence/finality"), so no event moves a closed session.
\<close>

datatype SessionState =
    Idle | SignalingConnecting | SignalingConnected | AwaitingJoinAck | RoomJoined
  | TransportConnecting | Streaming | Reconnecting | Closed | Failed

datatype SessionEvent =
    Start bool
  | SignalingUp
  | JoinSent
  | JoinRoomAck
  | TransportSelected
  | TransportFailedTwice
  | StartTransmissionAck
  | KeepAliveTimeout
  | TransportReconnected
  | RetriesExhausted
  | UnrecoverableError
  | SendControl nat
  | Stop

record Session =
  session_state :: SessionState
  has_pipeline :: bool
  has_transport :: bool
  pending_sends :: "nat list"
  status_callbacks :: "SessionState list"

text \<open>
  Modelled from the spec: entering a state and telling the UI of it (section 4.1, "emits
  status callbacks ... on every state transition"; section 6, \<open>onStatus(state)\<close>).
\<close>

definition transition :: "SessionState \<Rightarrow> Session \<Rightarrow> Session" where
  "transition st s = s\<lparr>session_state := st, status_callbacks := status_callbacks s @ [st]\<rparr>"

text \<open>
  Modelled from the spec: \<open>stop()\<close> releases the pipeline and the transport, discards the
  pending sends and, unless the session is closed already, makes the transition to
  \<open>Closed\<close>.
\<close>

definition stop :: "Session \<Rightarrow> Session" where
  "stop s =
     (let released = s\<lparr>has_pipeline := False, has_transport := False, pending_sends := []\<rparr>
      in if session_state s = Closed then released else transition Closed released)"

text \<open>
  Modelled from the spec: the transitions of section 4.1, one event at a time. An event
  that the current state does not expect leaves the session as it is; \<open>Start\<close> carries
  whether its parameters are valid; an unrecoverable error leads to \<open>Failed\<close> from every
  state but \<open>Closed\<close>.
\<close>

fun on_event :: "SessionEvent \<Rightarrow> Session \<Rightarrow> Session" where
  "on_event Stop s = stop s"
| "on_event ev s =
     (if session_state s = Closed then s
      else
        (case (ev, session_state s) of
           (Start valid, Idle) \<Rightarrow> if valid then transition SignalingConnecting s else s
         | (SignalingUp, SignalingConnecting) \<Rightarrow> transition SignalingConnected s
         | (JoinSent, SignalingConnected) \<Rightarrow> transition AwaitingJoinAck s
         | (JoinRoomAck, AwaitingJoinAck) \<Rightarrow> transition RoomJoined s
         | (TransportSelected, RoomJoined) \<Rightarrow>
             transition TransportConnecting (s\<lparr>has_transport := True\<rparr>)
         | (TransportFailedTwice, TransportConnecting) \<Rightarrow> transition Failed s
         | (StartTransmissionAck, TransportConnecting) \<Rightarrow>
             transition Streaming (s\<lparr>has_pipeline := True\<rparr>)
         | (KeepAliveTimeout, Streaming) \<Rightarrow> transition Reconnecting s
         | (TransportReconnected, Reconnecting) \<Rightarrow> transition Streaming s
         | (RetriesExhausted, Reconnecting) \<Rightarrow> transition Failed s
         | (UnrecoverableError, st) \<Rightarrow> if st = Failed then s else transition Failed s
         | (SendControl m, st) \<Rightarrow>
             if has_transport s then s\<lparr>pending_sends := pending_sends s @ [m]\<rparr> else s
         | _ \<Rightarrow> s))"

text \<open>Modelled from the spec: the task queue handles the events one after the other.\<close>

fun run_events :: "SessionEvent list \<Rightarrow> Session \<Rightarrow> Session" where
  "run_events [] s = s"
| "run_events (ev # evs) s = run_events evs (on_event ev s)"

section \<open>Concrete inputs\<close>

text \<open>
  The single-precision product \<open>static_cast<uint32_t>(b * 1.05f)\<close> under IEEE 754
  round-to-nearest-even, for use where a concrete \<open>mul_1_05f\<close> is needed: \<open>b\<close> is rounded
  to 24 significant bits, multiplied by \<open>1.05f = 8808038 / 2^23\<close>, the product rounded to
  24 significant bits, and the fraction dropped. (A product of \<open>2^32\<close> or more, for which
  the conversion is undefined in C++, wraps around here.)
\<close>

fun bit_length :: "nat \<Rightarrow> nat" where
  "bit_length n = (if n = 0 then 0 else Suc (bit_length (n div 2)))"

declare bit_length.simps [simp del]

definition round_shift :: "nat \<Rightarrow> nat \<Rightarrow> nat" where
  "round_shift n k =
     (let q = n div 2 ^ k; r = n mod 2 ^ k
      in if 2 * r > 2 ^ k \<or> (2 * r = 2 ^ k \<and> odd q) then q + 1 else q)"

definition f32_of_nat :: "nat \<Rightarrow> nat" where
  "f32_of_nat n = (let k = bit_length n - 24 in round_shift n k * 2 ^ k)"

definition mul_1_05f_ieee :: "u32 \<Rightarrow> u32" where
  "mul_1_05f_ieee b =
     (let n = f32_of_nat (unat b) * 8808038;
          k = bit_length n - 24
      in word_of_nat ((round_shift n k * 2 ^ k) div 2 ^ 23))"

definition qp_of :: "u32 \<Rightarrow> NV_ENC_QP" where
  "qp_of q = \<lparr>qpInterP = q, qpInterB = q, qpIntra = q\<rparr>"

definition config_zero :: NV_ENC_CONFIG where
  "config_zero =
     \<lparr>frameIntervalP = 0, gopLength = 0,
      rcParams = \<lparr>rateControlMode = NV_ENC_PARAMS_RC_CONSTQP, constQP = qp_of 0,
                  averageBitRate = 0, maxBitRate = 0, vbvBufferSize = 0, vbvInitialDelay = 0,
                  enableMinQP = False, enableMaxQP = False, minQP = qp_of 0, maxQP = qp_of 0\<rparr>,
      h264Config = \<lparr>h264_chromaFormatIDC = 0, h264_idrPeriod = 0, h264_maxNumRefFrames = 0,
                    h264_sliceMode = 0, h264_sliceModeData = 0\<rparr>,
      hevcConfig = \<lparr>hevc_pixelBitDepthMinus8 = 0, hevc_chromaFormatIDC = 0, hevc_idrPeriod = 0,
                    hevc_maxNumRefFramesInDPB = 0, hevc_sliceMode = 0, hevc_sliceModeData = 0\<rparr>\<rparr>"

definition params_1080p :: VideoEncodeParamsHelper where
  "params_1080p =
     \<lparr>params_width = 1920, params_height = 1080, params_codec = H264, params_fps = 60,
      params_bitrate = 8000000, params_qmin = (10, 10, 10), params_qmax = (40, 40, 40),
      params_vbvbufsize = None, params_vbvinit = None, params_gop = 0,
      params_rc = CBR, params_preset = Balanced\<rparr>"

definition sdk_example :: NvSdk where
  "sdk_example = \<lparr>NVENCAPI_MAJOR_VERSION = 11, NVENCAPI_MINOR_VERSION = 0\<rparr>"

definition drv_ok :: InitDriver where
  "drv_ok =
     \<lparr>load_library = True,
      getFunc_GetMaxSupportedVersion = True,
      GetMaxSupportedVersion_status = NV_ENC_SUCCESS,
      machine_version = 0xC1,
      getFunc_CreateInstance = True,
      CreateInstance_status = NV_ENC_SUCCESS,
      has_nvEncOpenEncodeSessionEx = True,
      OpenEncodeSessionEx_status = NV_ENC_SUCCESS,
      OpenEncodeSessionEx_encoder = Some 16,
      presetCfg = config_zero,
      InitializeEncoder_status = NV_ENC_SUCCESS,
      CreateEventA_result = None,
      CreateBitstreamBuffer_status = NV_ENC_SUCCESS,
      CreateBitstreamBuffer_buffer = Some 32\<rparr>"

text \<open>The same runtime, except that it cannot create the bitstream buffer.\<close>

definition drv_no_bitstream_buffer :: InitDriver where
  "drv_no_bitstream_buffer =
     drv_ok\<lparr>CreateBitstreamBuffer_status := NV_ENC_ERR 10, CreateBitstreamBuffer_buffer := None\<rparr>"

text \<open>
  An encoder object as constructed (\<open>buffer_format_\<close> is \<open>ARGB\<close>, \<open>async_\<close> is false, the
  two buffers are null), and the live encoder that \<open>init\<close> makes of it with \<open>params_1080p\<close>
  on the runtime \<open>drv_ok\<close> (lemma \<open>init_makes_live_encoder\<close>).
\<close>

definition impl_new :: NvD3d11EncoderImpl where
  "impl_new =
     \<lparr>width = 0, height = 0, codec_type = H264, nvencoder = None,
      buffer_format = NV_ENC_BUFFER_FORMAT_ARGB,
      init_params = \<lparr>encodeGUID = NV_ENC_CODEC_H264_GUID,
                     presetGUID = NV_ENC_PRESET_LOW_LATENCY_DEFAULT_GUID,
                     encodeWidth = 0, encodeHeight = 0, darWidth = 0, darHeight = 0,
                     maxEncodeWidth = 0, maxEncodeHeight = 0, frameRateNum = 0,
                     frameRateDen = 0, enablePTD = 0, reportSliceOffsets = 0,
                     enableSubFrameWrite = 0, enableEncodeAsync = False\<rparr>,
      encode_config = config_zero,
      bitstream_output_buffer = None, event = None, async = False\<rparr>"

definition live_encoder :: NvD3d11EncoderImpl where
  "live_encoder =
     \<lparr>width = 1920, height = 1080, codec_type = H264, nvencoder = Some 16,
      buffer_format = NV_ENC_BUFFER_FORMAT_ARGB,
      init_params = \<lparr>encodeGUID = NV_ENC_CODEC_H264_GUID,
                     presetGUID = NV_ENC_PRESET_LOW_LATENCY_DEFAULT_GUID,
                     encodeWidth = 1920, encodeHeight = 1080, darWidth = 1920, darHeight = 1080,
                     maxEncodeWidth = 1920, maxEncodeHeight = 1080, frameRateNum = 60,
                     frameRateDen = 1, enablePTD = 1, reportSliceOffsets = 0,
                     enableSubFrameWrite = 0, enableEncodeAsync = False\<rparr>,
      encode_config =
        \<lparr>frameIntervalP = 1, gopLength = NVENC_INFINITE_GOPLENGTH,
         rcParams = \<lparr>rateControlMode = NV_ENC_PARAMS_RC_CBR,
                     constQP = \<lparr>qpInterP = 28, qpInterB = 31, qpIntra = 25\<rparr>,
                     averageBitRate = 8000000, maxBitRate = 8400000,
                     vbvBufferSize = 0, vbvInitialDelay = 0,
                     enableMinQP = True, enableMaxQP = True,
                     minQP = qp_of 10, maxQP = qp_of 40\<rparr>,
         h264Config = \<lparr>h264_chromaFormatIDC = 0, h264_idrPeriod = NVENC_INFINITE_GOPLENGTH,
                       h264_maxNumRefFrames = 0, h264_sliceMode = 3, h264_sliceModeData = 1\<rparr>,
         hevcConfig = \<lparr>hevc_pixelBitDepthMinus8 = 0, hevc_chromaFormatIDC = 0,
                       hevc_idrPeriod = 0, hevc_maxNumRefFramesInDPB = 0, hevc_sliceMode = 0,
                       hevc_sliceModeData = 0\<rparr>\<rparr>,
      bitstream_output_buffer = Some 32, event = None, async = False\<rparr>"

definition encode_ok :: EncodeDriver where
  "encode_ok =
     \<lparr>RegisterResource_status = NV_ENC_SUCCESS,
      RegisterResource_registered = Some 48,
      MapInputResource_status = NV_ENC_SUCCESS,
      MapInputResource_mapped = Some 64,
      EncodePicture_status = NV_ENC_SUCCESS,
      WaitForSingleObject_failed = False,
      LockBitstream_status = NV_ENC_SUCCESS,
      LockBitstream_bytes = [0, 0, 0, 1, 0x65],
      UnlockBitstream_status = NV_ENC_SUCCESS,
      UnmapInputResource_status = NV_ENC_SUCCESS,
      UnregisterResource_status = NV_ENC_SUCCESS,
      GetEncodeStats_picType = NV_ENC_PIC_TYPE_IDR\<rparr>"

text \<open>
  The same runtime, except that it refuses to register the input frame; and the same
  runtime, except that it reports the picture type P.
\<close>

definition encode_no_register :: EncodeDriver where
  "encode_no_register =
     encode_ok\<lparr>RegisterResource_status := NV_ENC_ERR 8, RegisterResource_registered := None\<rparr>"

definition encode_ok_P :: EncodeDriver where
  "encode_ok_P = encode_ok\<lparr>GetEncodeStats_picType := NV_ENC_PIC_TYPE_P\<rparr>"

text \<open>
  Numbers for the enumerators of \<open>lt::Scancode\<close>, for use where a concrete \<open>sc\<close> is
  needed: the USB keyboard usage numbers that the enumerators' names follow.
\<close>

primrec usb_usage :: "ScancodeName \<Rightarrow> int" where
  "usb_usage SCANCODE_A = 4"
| "usb_usage SCANCODE_Z = 29"
| "usb_usage SCANCODE_1 = 30"
| "usb_usage SCANCODE_0 = 39"
| "usb_usage SCANCODE_RETURN = 40"
| "usb_usage SCANCODE_ESCAPE = 41"
| "usb_usage SCANCODE_BACKSPACE = 42"
| "usb_usage SCANCODE_TAB = 43"
| "usb_usage SCANCODE_SPACE = 44"
| "usb_usage SCANCODE_MINUS = 45"
| "usb_usage SCANCODE_EQUALS = 46"
| "usb_usage SCANCODE_LEFTBRACKET = 47"
| "usb_usage SCANCODE_RIGHTBRACKET = 48"
| "usb_usage SCANCODE_BACKSLASH = 49"
| "usb_usage SCANCODE_NONUSHASH = 50"
| "usb_usage SCANCODE_SEMICOLON = 51"
| "usb_usage SCANCODE_APOSTROPHE = 52"
| "usb_usage SCANCODE_GRAVE = 53"
| "usb_usage SCANCODE_COMMA = 54"
| "usb_usage SCANCODE_PERIOD = 55"
| "usb_usage SCANCODE_SLASH = 56"
| "usb_usage SCANCODE_CAPSLOCK = 57"
| "usb_usage SCANCODE_F1 = 58"
| "usb_usage SCANCODE_F12 = 69"
| "usb_usage SCANCODE_PRINTSCREEN = 70"
| "usb_usage SCANCODE_SCROLLLOCK = 71"
| "usb_usage SCANCODE_PAUSE = 72"
| "usb_usage SCANCODE_INSERT = 73"
| "usb_usage SCANCODE_HOME = 74"
| "usb_usage SCANCODE_PAGEUP = 75"
| "usb_usage SCANCODE_DELETE = 76"
| "usb_usage SCANCODE_END = 77"
| "usb_usage SCANCODE_PAGEDOWN = 78"
| "usb_usage SCANCODE_RIGHT = 79"
| "usb_usage SCANCODE_LEFT = 80"
| "usb_usage SCANCODE_DOWN = 81"
| "usb_usage SCANCODE_UP = 82"
| "usb_usage SCANCODE_NUMLOCKCLEAR = 83"
| "usb_usage SCANCODE_KP_DIVIDE = 84"
| "usb_usage SCANCODE_KP_MULTIPLY = 85"
| "usb_usage SCANCODE_KP_MINUS = 86"
| "usb_usage SCANCODE_KP_PLUS = 87"
| "usb_usage SCANCODE_KP_ENTER = 88"
| "usb_usage SCANCODE_KP_1 = 89"
| "usb_usage SCANCODE_KP_9 = 97"
| "usb_usage SCANCODE_KP_0 = 98"
| "usb_usage SCANCODE_KP_PERIOD = 99"
| "usb_usage SCANCODE_APPLICATION = 101"
| "usb_usage SCANCODE_KP_DECIMAL = 220"
| "usb_usage SCANCODE_LCTRL = 224"
| "usb_usage SCANCODE_LSHIFT = 225"
| "usb_usage SCANCODE_LALT = 226"
| "usb_usage SCANCODE_LGUI = 227"
| "usb_usage SCANCODE_RCTRL = 228"
| "usb_usage SCANCODE_RSHIFT = 229"
| "usb_usage SCANCODE_RALT = 230"
| "usb_usage SCANCODE_RGUI = 231"

text \<open>A \<open>MapVirtualKeyW\<close> that knows the scan codes of the keys used below.\<close>

definition MapVirtualKeyW_example :: "u32 \<Rightarrow> u32 \<Rightarrow> u32" where
  "MapVirtualKeyW_example code map_type =
     (if code = 0x41 then 0x1E else if code = 0x0D then 0x1C else 0)"

section \<open>Properties of the encoder\<close>

subsection \<open>Evaluating the concrete inputs\<close>

lemma bit_length_0: "bit_length 0 = 0"
  by (simp add: bit_length.simps)

lemma bit_length_1: "bit_length (Suc 0) = Suc 0"
  by (subst bit_length.simps) (simp add: bit_length_0)

lemma bit_length_numeral: "bit_length (numeral n) = Suc (bit_length (numeral n div 2))"
  by (subst bit_length.simps) simp

lemmas mul_1_05f_ieee_eval =
  mul_1_05f_ieee_def f32_of_nat_def round_shift_def Let_def
  bit_length_0 bit_length_1 bit_length_numeral

lemma mul_1_05f_ieee_1000000: "mul_1_05f_ieee 1000000 = 1050000"
  by (simp add: mul_1_05f_ieee_eval)

lemma mul_1_05f_ieee_4000000: "mul_1_05f_ieee 4000000 = 4200000"
  by (simp add: mul_1_05f_ieee_eval)

lemma mul_1_05f_ieee_8000000: "mul_1_05f_ieee 8000000 = 8400000"
  by (simp add: mul_1_05f_ieee_eval)

lemma live_encoder_fields:
  "nvencoder live_encoder = Some 16"
  "width live_encoder = 1920"
  "height live_encoder = 1080"
  "buffer_format live_encoder = NV_ENC_BUFFER_FORMAT_ARGB"
  "bitstream_output_buffer live_encoder = Some 32"
  "event live_encoder = None"
  "async live_encoder = False"
  "frameRateNum (init_params live_encoder) = 60"
  "averageBitRate (rcParams (encode_config live_encoder)) = 8000000"
  "maxBitRate (rcParams (encode_config live_encoder)) = 8400000"
  "minQP (rcParams (encode_config live_encoder)) = qp_of 10"
  "maxQP (rcParams (encode_config live_encoder)) = qp_of 40"
  by (simp_all add: live_encoder_def)

lemmas NvEncParamsHelper_defs =
  NvEncParamsHelper_codec_def NvEncParamsHelper_preset_def NvEncParamsHelper_qmin_def
  NvEncParamsHelper_qmax_def NvEncParamsHelper_rc_def NvEncParamsHelper_maxbitrate_def

lemma loadNvApi_drv_ok:
  "loadNvApi sdk_example drv =
     (if load_library drv \<and> getFunc_GetMaxSupportedVersion drv
         \<and> GetMaxSupportedVersion_status drv = NV_ENC_SUCCESS \<and> \<not> machine_version drv < 0xB0
         \<and> getFunc_CreateInstance drv \<and> CreateInstance_status drv = NV_ENC_SUCCESS
      then (True, [Call_NvEncodeAPIGetMaxSupportedVersion, Call_NvEncodeAPICreateInstance])
      else loadNvApi sdk_example drv)"
  by (simp add: loadNvApi_def sdk_example_def)

lemma generateEncodeParams_1080p:
  assumes "presetCfg drv = config_zero"
  shows "generateEncodeParams mul_1_05f_ieee drv params_1080p
     (impl_new\<lparr>width := 1920, height := 1080, codec_type := H264, nvencoder := Some 16\<rparr>) =
   (init_params live_encoder, encode_config live_encoder,
    [Call_nvEncGetEncodePresetConfig (Some 16) NV_ENC_CODEC_H264_GUID
       NV_ENC_PRESET_LOW_LATENCY_DEFAULT_GUID])"
  using assms
  by (simp add: generateEncodeParams_def Let_def NvEncParamsHelper_defs params_1080p_def
      impl_new_def config_zero_def qp_of_def is_yuv444_def mul_1_05f_ieee_8000000
      live_encoder_def)

text \<open>
  On a runtime where every call succeeds, \<open>init\<close> returns true and leaves the live encoder;
  the effects are the calls in program order.
\<close>

lemma init_makes_live_encoder:
  "init mul_1_05f_ieee sdk_example drv_ok params_1080p impl_new =
     (True, live_encoder,
      [Call_NvEncodeAPIGetMaxSupportedVersion, Call_NvEncodeAPICreateInstance,
       Call_nvEncOpenEncodeSessionEx,
       Call_nvEncGetEncodePresetConfig (Some 16) NV_ENC_CODEC_H264_GUID
         NV_ENC_PRESET_LOW_LATENCY_DEFAULT_GUID,
       Call_nvEncInitializeEncoder (Some 16) (init_params live_encoder)
         (encode_config live_encoder),
       Call_nvEncCreateBitstreamBuffer (Some 16),
       LOG_INFO ''NvD3d11Encoder initialized''])"
proof -
  have s2: "impl_new\<lparr>width := params_width params_1080p, height := params_height params_1080p,
                     codec_type := params_codec params_1080p,
                     nvencoder := OpenEncodeSessionEx_encoder drv_ok\<rparr>
       = impl_new\<lparr>width := 1920, height := 1080, codec_type := H264, nvencoder := Some 16\<rparr>"
    by (simp add: params_1080p_def drv_ok_def)
  have fmt: "\<not> is_10bit (buffer_format impl_new)" "\<not> async impl_new"
    by (simp_all add: is_10bit_def impl_new_def)
  have load: "loadNvApi sdk_example drv_ok =
      (True, [Call_NvEncodeAPIGetMaxSupportedVersion, Call_NvEncodeAPICreateInstance])"
    by (subst loadNvApi_drv_ok) (simp add: drv_ok_def)
  have gen: "generateEncodeParams mul_1_05f_ieee drv_ok params_1080p
     (impl_new\<lparr>width := 1920, height := 1080, codec_type := H264, nvencoder := Some 16\<rparr>) =
   (init_params live_encoder, encode_config live_encoder,
    [Call_nvEncGetEncodePresetConfig (Some 16) NV_ENC_CODEC_H264_GUID
       NV_ENC_PRESET_LOW_LATENCY_DEFAULT_GUID])"
    by (rule generateEncodeParams_1080p) (simp add: drv_ok_def)
  have ok: "has_nvEncOpenEncodeSessionEx drv_ok"
    "OpenEncodeSessionEx_status drv_ok = NV_ENC_SUCCESS"
    "InitializeEncoder_status drv_ok = NV_ENC_SUCCESS"
    "CreateBitstreamBuffer_status drv_ok = NV_ENC_SUCCESS"
    "CreateBitstreamBuffer_buffer drv_ok = Some 32"
    by (simp_all add: drv_ok_def)
  have final: "impl_new\<lparr>width := 1920, height := 1080, codec_type := H264, nvencoder := Some 16,
      init_params := init_params live_encoder, encode_config := encode_config live_encoder,
      bitstream_output_buffer := Some 32\<rparr> = live_encoder"
    by (simp add: impl_new_def live_encoder_def)
  show ?thesis
    unfolding init_def Let_def
    by (simp add: fmt load s2 gen ok initBuffers_def final)
qed


subsection \<open>reconfigure\<close>

lemma fst_reconfigure:
  "fst (reconfigure m st p s) =
     (case fps p of
        Some f \<Rightarrow>
          (case bitrate_bps p of
             Some b \<Rightarrow>
               s\<lparr>encode_config := (encode_config s)
                   \<lparr>rcParams := (rcParams (encode_config s))
                       \<lparr>averageBitRate := b, maxBitRate := m b\<rparr>\<rparr>,
                 init_params := (init_params s)\<lparr>frameRateNum := f\<rparr>\<rparr>
           | None \<Rightarrow> s\<lparr>init_params := (init_params s)\<lparr>frameRateNum := f\<rparr>\<rparr>)
      | None \<Rightarrow>
          (case bitrate_bps p of
             Some b \<Rightarrow>
               s\<lparr>encode_config := (encode_config s)
                   \<lparr>rcParams := (rcParams (encode_config s))
                       \<lparr>averageBitRate := b, maxBitRate := m b\<rparr>\<rparr>\<rparr>
           | None \<Rightarrow> s))"
  by (simp add: reconfigure_def Let_def split: option.splits)

lemma snd_reconfigure:
  "snd (reconfigure m st p s) =
     (if bitrate_bps p = None \<and> fps p = None then []
      else Call_nvEncReconfigureEncoder (nvencoder s)
             (init_params (fst (reconfigure m st p s)))
             (encode_config (fst (reconfigure m st p s)))
           # (if st \<noteq> NV_ENC_SUCCESS
              then [LOG_ERR ''nvEncReconfigureEncoder failed with'']
              else []))"
  by (simp add: reconfigure_def Let_def split: option.splits)

lemma reconfigure_keeps_qp:
  "minQP (rcParams (encode_config (fst (reconfigure m st p s)))) = minQP (rcParams (encode_config s))"
  "maxQP (rcParams (encode_config (fst (reconfigure m st p s)))) = maxQP (rcParams (encode_config s))"
  by (simp_all add: fst_reconfigure split: option.splits)

lemma reconfigure_sets_rate:
  "averageBitRate (rcParams (encode_config (fst (reconfigure m st p s)))) =
     (case bitrate_bps p of Some b \<Rightarrow> b | None \<Rightarrow> averageBitRate (rcParams (encode_config s)))"
  "maxBitRate (rcParams (encode_config (fst (reconfigure m st p s)))) =
     (case bitrate_bps p of Some b \<Rightarrow> m b | None \<Rightarrow> maxBitRate (rcParams (encode_config s)))"
  "frameRateNum (init_params (fst (reconfigure m st p s))) =
     (case fps p of Some f \<Rightarrow> f | None \<Rightarrow> frameRateNum (init_params s))"
  by (simp_all add: fst_reconfigure split: option.splits)

lemma reconfigure_keeps_session:
  "nvencoder (fst (reconfigure m st p s)) = nvencoder s"
  "width (fst (reconfigure m st p s)) = width s"
  "height (fst (reconfigure m st p s)) = height s"
  "encodeWidth (init_params (fst (reconfigure m st p s))) = encodeWidth (init_params s)"
  "encodeHeight (init_params (fst (reconfigure m st p s))) = encodeHeight (init_params s)"
  by (simp_all add: fst_reconfigure split: option.splits)

lemma reconfigure_status_irrelevant:
  "fst (reconfigure m st p s) = fst (reconfigure m st' p s)"
  by (simp add: fst_reconfigure)

text \<open>
  C9. A request with neither a bitrate nor an fps value leaves the encoder object as it
  was, every member of \<open>init_params\<close> and \<open>encode_config\<close> included, and makes no call
  into the encoder runtime (and logs nothing).
\<close>

theorem reconfigure_empty_request:
  "bitrate_bps p = None \<Longrightarrow> fps p = None \<Longrightarrow> reconfigure m st p s = (s, [])"
  by (simp add: reconfigure_def)

theorem reconfigure_empty_request_witness:
  "reconfigure mul_1_05f_ieee (NV_ENC_ERR 8) \<lparr>bitrate_bps = None, fps = None\<rparr> live_encoder
     = (live_encoder, [])"
  using reconfigure_empty_request
          [of "\<lparr>bitrate_bps = None, fps = None\<rparr>" mul_1_05f_ieee "NV_ENC_ERR 8" live_encoder]
  by simp

text \<open>
  C1, as the code has it. \<open>reconfigure\<close> stores the requested average bitrate (with the
  maximum bitrate derived from it) and the requested frame rate, each when the request
  carries it; it leaves the QP bounds, the resolution and the session handle as they
  were; whatever the runtime answers, the object it leaves is the same; and its only
  call into the runtime is one \<open>nvEncReconfigureEncoder\<close> on the existing session with
  the stored parameters, followed by a log line when that call fails. The function is
  \<open>void\<close>: the model has no result that could report a failure.
\<close>

theorem reconfigure_updates_rate_in_place:
  "averageBitRate (rcParams (encode_config (fst (reconfigure m st p s)))) =
     (case bitrate_bps p of Some b \<Rightarrow> b | None \<Rightarrow> averageBitRate (rcParams (encode_config s)))
   \<and> maxBitRate (rcParams (encode_config (fst (reconfigure m st p s)))) =
     (case bitrate_bps p of Some b \<Rightarrow> m b | None \<Rightarrow> maxBitRate (rcParams (encode_config s)))
   \<and> frameRateNum (init_params (fst (reconfigure m st p s))) =
     (case fps p of Some f \<Rightarrow> f | None \<Rightarrow> frameRateNum (init_params s))
   \<and> minQP (rcParams (encode_config (fst (reconfigure m st p s)))) = minQP (rcParams (encode_config s))
   \<and> maxQP (rcParams (encode_config (fst (reconfigure m st p s)))) = maxQP (rcParams (encode_config s))
   \<and> width (fst (reconfigure m st p s)) = width s
   \<and> height (fst (reconfigure m st p s)) = height s
   \<and> encodeWidth (init_params (fst (reconfigure m st p s))) = encodeWidth (init_params s)
   \<and> encodeHeight (init_params (fst (reconfigure m st p s))) = encodeHeight (init_params s)
   \<and> nvencoder (fst (reconfigure m st p s)) = nvencoder s
   \<and> fst (reconfigure m NV_ENC_SUCCESS p s) = fst (reconfigure m st p s)
   \<and> snd (reconfigure m st p s) =
       (if bitrate_bps p = None \<and> fps p = None then []
        else Call_nvEncReconfigureEncoder (nvencoder s)
               (init_params (fst (reconfigure m st p s)))
               (encode_config (fst (reconfigure m st p s)))
             # (if st \<noteq> NV_ENC_SUCCESS
                then [LOG_ERR ''nvEncReconfigureEncoder failed with'']
                else []))"
  using reconfigure_sets_rate [of m st p s] reconfigure_keeps_qp [of m st p s]
    reconfigure_keeps_session [of m st p s] snd_reconfigure [of m st p s]
    reconfigure_status_irrelevant [of m NV_ENC_SUCCESS p s st]
  by simp

theorem reconfigure_updates_rate_in_place_witness:
  "averageBitRate (rcParams (encode_config (fst (reconfigure mul_1_05f_ieee (NV_ENC_ERR 8)
      \<lparr>bitrate_bps = Some 4000000, fps = Some 30\<rparr> live_encoder)))) = 4000000
   \<and> maxBitRate (rcParams (encode_config (fst (reconfigure mul_1_05f_ieee (NV_ENC_ERR 8)
      \<lparr>bitrate_bps = Some 4000000, fps = Some 30\<rparr> live_encoder)))) = 4200000
   \<and> frameRateNum (init_params (fst (reconfigure mul_1_05f_ieee (NV_ENC_ERR 8)
      \<lparr>bitrate_bps = Some 4000000, fps = Some 30\<rparr> live_encoder))) = 30
   \<and> minQP (rcParams (encode_config (fst (reconfigure mul_1_05f_ieee (NV_ENC_ERR 8)
      \<lparr>bitrate_bps = Some 4000000, fps = Some 30\<rparr> live_encoder)))) = qp_of 10
   \<and> maxQP (rcParams (encode_config (fst (reconfigure mul_1_05f_ieee (NV_ENC_ERR 8)
      \<lparr>bitrate_bps = Some 4000000, fps = Some 30\<rparr> live_encoder)))) = qp_of 40
   \<and> nvencoder (fst (reconfigure mul_1_05f_ieee (NV_ENC_ERR 8)
      \<lparr>bitrate_bps = Some 4000000, fps = Some 30\<rparr> live_encoder)) = Some 16"
  using reconfigure_updates_rate_in_place
          [of mul_1_05f_ieee "NV_ENC_ERR 8" "\<lparr>bitrate_bps = Some 4000000, fps = Some 30\<rparr>"
              live_encoder]
  by (simp add: mul_1_05f_ieee_4000000 live_encoder_fields)

text \<open>
  C1 as stated fails on the QP bounds: the live encoder's lower QP bound is 10 in each
  component, and no request at all makes \<open>reconfigure\<close> store the bound 20.
\<close>

theorem reconfigure_cannot_set_qp_bounds:
  "\<not> (\<exists>p :: ReconfigureParams.
        minQP (rcParams (encode_config
          (fst (reconfigure mul_1_05f_ieee NV_ENC_SUCCESS p live_encoder)))) = qp_of 20)"
  by (simp add: reconfigure_keeps_qp live_encoder_fields qp_of_def)

subsection \<open>Reconfigure messages in the capture pipeline\<close>






lemma snd_on_reconfigure_all_Cons:
  "snd (on_reconfigure_all m ((st, msg) # rest) p) =
     snd (on_reconfigure m st msg p)
       @ snd (on_reconfigure_all m rest (fst (on_reconfigure m st msg p)))"
  by (simp add: case_prod_beta)






subsection \<open>init\<close>

lemma initBuffers_True: "fst (initBuffers drv s) = True"
  by (simp add: initBuffers_def Let_def)

lemma loadNvApi_no_session_call: "Call_nvEncOpenEncodeSessionEx \<notin> set (snd (loadNvApi sdk drv))"
  by (simp add: loadNvApi_def Let_def)

text \<open>
  With H.264 and a 10-bit buffer format, \<open>init\<close> fails before it loads the runtime: the
  only effect is the log line, so no encode session is opened.
\<close>

lemma init_h264_10bit_fails:
  assumes "params_codec params = H264" and "is_10bit (buffer_format s)"
  shows "fst (init m sdk drv params s) = False"
    and "snd (snd (init m sdk drv params s)) = [LOG_ERR ''Unsupported buffer format when using h264'']"
  using assms by (simp_all add: init_def Let_def)

text \<open>
  When \<open>init\<close> returns true, the library was loaded and the open-session and
  initialize-encoder calls succeeded. The status of \<open>nvEncCreateBitstreamBuffer\<close> is not
  among the conditions.
\<close>

lemma init_True_checked_steps:
  assumes "fst (init m sdk drv params s)"
  shows "fst (loadNvApi sdk drv) \<and> has_nvEncOpenEncodeSessionEx drv
         \<and> OpenEncodeSessionEx_status drv = NV_ENC_SUCCESS
         \<and> InitializeEncoder_status drv = NV_ENC_SUCCESS"
  using assms
  by (auto simp: init_def Let_def split: prod.splits if_splits bool.splits)

text \<open>
  C6 at the failing input. The runtime \<open>drv_no_bitstream_buffer\<close> answers every call as
  \<open>drv_ok\<close> does, except that \<open>nvEncCreateBitstreamBuffer\<close> fails with status 10 and
  leaves the buffer null. \<open>init\<close> logs the failure and returns true all the same, with a
  null \<open>bitstream_output_buffer_\<close>.
\<close>

theorem init_true_after_failed_bitstream_buffer:
  "init mul_1_05f_ieee sdk_example drv_no_bitstream_buffer params_1080p impl_new =
     (True, live_encoder\<lparr>bitstream_output_buffer := None\<rparr>,
      [Call_NvEncodeAPIGetMaxSupportedVersion, Call_NvEncodeAPICreateInstance,
       Call_nvEncOpenEncodeSessionEx,
       Call_nvEncGetEncodePresetConfig (Some 16) NV_ENC_CODEC_H264_GUID
         NV_ENC_PRESET_LOW_LATENCY_DEFAULT_GUID,
       Call_nvEncInitializeEncoder (Some 16) (init_params live_encoder)
         (encode_config live_encoder),
       Call_nvEncCreateBitstreamBuffer (Some 16),
       LOG_ERR ''nvEncCreateBitstreamBuffer failed with'',
       LOG_INFO ''NvD3d11Encoder initialized''])"
proof -
  let ?drv = drv_no_bitstream_buffer
  have s2: "impl_new\<lparr>width := params_width params_1080p, height := params_height params_1080p,
                     codec_type := params_codec params_1080p,
                     nvencoder := OpenEncodeSessionEx_encoder ?drv\<rparr>
       = impl_new\<lparr>width := 1920, height := 1080, codec_type := H264, nvencoder := Some 16\<rparr>"
    by (simp add: params_1080p_def drv_ok_def drv_no_bitstream_buffer_def)
  have fmt: "\<not> is_10bit (buffer_format impl_new)" "\<not> async impl_new"
    by (simp_all add: is_10bit_def impl_new_def)
  have load: "loadNvApi sdk_example ?drv =
      (True, [Call_NvEncodeAPIGetMaxSupportedVersion, Call_NvEncodeAPICreateInstance])"
    by (subst loadNvApi_drv_ok) (simp add: drv_ok_def drv_no_bitstream_buffer_def)
  have gen: "generateEncodeParams mul_1_05f_ieee ?drv params_1080p
     (impl_new\<lparr>width := 1920, height := 1080, codec_type := H264, nvencoder := Some 16\<rparr>) =
   (init_params live_encoder, encode_config live_encoder,
    [Call_nvEncGetEncodePresetConfig (Some 16) NV_ENC_CODEC_H264_GUID
       NV_ENC_PRESET_LOW_LATENCY_DEFAULT_GUID])"
    by (rule generateEncodeParams_1080p) (simp add: drv_ok_def drv_no_bitstream_buffer_def)
  have ok: "has_nvEncOpenEncodeSessionEx ?drv"
    "OpenEncodeSessionEx_status ?drv = NV_ENC_SUCCESS"
    "InitializeEncoder_status ?drv = NV_ENC_SUCCESS"
    "CreateBitstreamBuffer_status ?drv = NV_ENC_ERR 10"
    "CreateBitstreamBuffer_buffer ?drv = None"
    by (simp_all add: drv_ok_def drv_no_bitstream_buffer_def)
  have final: "impl_new\<lparr>width := 1920, height := 1080, codec_type := H264, nvencoder := Some 16,
      init_params := init_params live_encoder, encode_config := encode_config live_encoder,
      bitstream_output_buffer := None\<rparr> = live_encoder\<lparr>bitstream_output_buffer := None\<rparr>"
    by (simp add: impl_new_def live_encoder_def)
  show ?thesis
    unfolding init_def Let_def
    by (simp add: fmt load s2 gen ok initBuffers_def final)
qed

theorem init_true_after_failed_bitstream_buffer_witness:
  "fst (init mul_1_05f_ieee sdk_example drv_no_bitstream_buffer params_1080p impl_new)
   \<and> CreateBitstreamBuffer_status drv_no_bitstream_buffer \<noteq> NV_ENC_SUCCESS
   \<and> bitstream_output_buffer
        (fst (snd (init mul_1_05f_ieee sdk_example drv_no_bitstream_buffer params_1080p impl_new)))
      = None"
  using init_true_after_failed_bitstream_buffer
  by (simp add: drv_no_bitstream_buffer_def)

subsection \<open>encodeOneFrame and encodeFrame\<close>

lemma initInputFrame_cases:
  "initInputFrame drv input_frame s =
     (if RegisterResource_status drv \<noteq> NV_ENC_SUCCESS
      then (None, [Call_nvEncRegisterResource (nvencoder s) input_frame,
                   LOG_ERR ''nvEncRegisterResource failed with''])
      else if MapInputResource_status drv \<noteq> NV_ENC_SUCCESS
      then (None, [Call_nvEncRegisterResource (nvencoder s) input_frame,
                   Call_nvEncMapInputResource (nvencoder s) (RegisterResource_registered drv),
                   LOG_ERR ''nvEncMapInputResource failed with''])
      else (Some \<lparr>registeredResource = RegisterResource_registered drv,
                   mappedResource = MapInputResource_mapped drv\<rparr>,
            [Call_nvEncRegisterResource (nvencoder s) input_frame,
             Call_nvEncMapInputResource (nvencoder s) (RegisterResource_registered drv)]))"
  by (simp add: initInputFrame_def Let_def)

text \<open>
  Every \<open>nvEncEncodePicture\<close> call of \<open>encodeOneFrame\<close> goes to the encoder's session,
  with flags that follow \<open>request_iframe\<close> and with the mapped input as its buffer.
\<close>

lemma encodeOneFrame_picture_calls:
  assumes "Call_nvEncEncodePicture h p \<in> set (snd (encodeOneFrame drv input_frame req s))"
  shows "h = nvencoder s
         \<and> encodePicFlags p =
             (if req then NV_ENC_PIC_FLAG_FORCEIDR OR NV_ENC_PIC_FLAG_OUTPUT_SPSPPS else 0)
         \<and> inputBuffer p = MapInputResource_mapped drv"
  using assms
  by (auto simp: encodeOneFrame_def initInputFrame_cases uninitInputFrame_def Let_def
           split: if_splits option.splits)

text \<open>
  Once the input frame is registered and mapped, it is submitted: the registration of
  \<open>input_frame\<close> and an \<open>nvEncEncodePicture\<close> call are among the effects.
\<close>

lemma encodeOneFrame_submits:
  assumes "RegisterResource_status drv = NV_ENC_SUCCESS"
    and "MapInputResource_status drv = NV_ENC_SUCCESS"
  shows "Call_nvEncRegisterResource (nvencoder s) input_frame
           \<in> set (snd (encodeOneFrame drv input_frame req s))"
    and "\<exists>p. Call_nvEncEncodePicture (nvencoder s) p
           \<in> set (snd (encodeOneFrame drv input_frame req s))"
  using assms
  by (auto simp: encodeOneFrame_def initInputFrame_cases uninitInputFrame_def Let_def
           split: if_splits option.splits)

text \<open>
  When the input frame does not register or does not map, \<open>encodeOneFrame\<close> returns no
  frame and submits no picture.
\<close>

lemma encodeOneFrame_not_mapped:
  assumes "RegisterResource_status drv \<noteq> NV_ENC_SUCCESS
           \<or> MapInputResource_status drv \<noteq> NV_ENC_SUCCESS"
  shows "fst (encodeOneFrame drv input_frame req s) = None"
    and "Call_nvEncEncodePicture h p \<notin> set (snd (encodeOneFrame drv input_frame req s))"
  using assms
  by (auto simp: encodeOneFrame_def initInputFrame_cases)

lemma encodeOneFrame_is_keyframe:
  assumes "fst (encodeOneFrame drv input_frame req s) = Some fr"
  shows "is_keyframe fr =
           (GetEncodeStats_picType drv = NV_ENC_PIC_TYPE_I
            \<or> GetEncodeStats_picType drv = NV_ENC_PIC_TYPE_IDR)"
  using assms
  by (auto simp: encodeOneFrame_def initInputFrame_cases uninitInputFrame_def Let_def
           split: if_splits option.splits)

lemma force_idr_flag_set:
  "(NV_ENC_PIC_FLAG_FORCEIDR OR NV_ENC_PIC_FLAG_OUTPUT_SPSPPS) AND NV_ENC_PIC_FLAG_FORCEIDR
     = NV_ENC_PIC_FLAG_FORCEIDR"
  by (simp add: NV_ENC_PIC_FLAG_FORCEIDR_def NV_ENC_PIC_FLAG_OUTPUT_SPSPPS_def)

lemma encodeFrame_after_requestKeyframe:
  "encodeFrame drv input_frame (requestKeyframe e) =
     (fst (encodeOneFrame drv input_frame True (impl e)),
      e\<lparr>request_keyframe := False\<rparr>,
      snd (encodeOneFrame drv input_frame True (impl e)))"
  by (simp add: encodeFrame_def needKeyframe_def requestKeyframe_def case_prod_beta)

text \<open>
  C5, as the code has it. Let \<open>encodeFrame\<close> be called right after \<open>requestKeyframe\<close>.
  Every picture it submits goes to the encoder's session with the force-IDR flag set and
  the mapped input as its buffer. When the input frame registers and maps, the frame is
  registered and a picture is submitted; when it does not, no picture is submitted and
  no frame is returned. A frame that is returned has \<open>is_keyframe\<close> set exactly when the
  picture type the encoder reports is I or IDR. In every case the request is used up.
\<close>

theorem requested_keyframe_reaches_next_frame:
  assumes "encodeFrame drv input_frame (requestKeyframe e) = (out, e1, t)"
  shows "(\<forall>h p. Call_nvEncEncodePicture h p \<in> set t \<longrightarrow>
            h = nvencoder (impl e)
            \<and> encodePicFlags p AND NV_ENC_PIC_FLAG_FORCEIDR = NV_ENC_PIC_FLAG_FORCEIDR
            \<and> inputBuffer p = MapInputResource_mapped drv)
         \<and> (RegisterResource_status drv = NV_ENC_SUCCESS
              \<and> MapInputResource_status drv = NV_ENC_SUCCESS \<longrightarrow>
            Call_nvEncRegisterResource (nvencoder (impl e)) input_frame \<in> set t
            \<and> (\<exists>p. Call_nvEncEncodePicture (nvencoder (impl e)) p \<in> set t))
         \<and> (RegisterResource_status drv \<noteq> NV_ENC_SUCCESS
              \<or> MapInputResource_status drv \<noteq> NV_ENC_SUCCESS \<longrightarrow>
            out = None \<and> (\<forall>h p. Call_nvEncEncodePicture h p \<notin> set t))
         \<and> (\<forall>fr. out = Some fr \<longrightarrow>
              is_keyframe fr =
                (GetEncodeStats_picType drv = NV_ENC_PIC_TYPE_I
                 \<or> GetEncodeStats_picType drv = NV_ENC_PIC_TYPE_IDR))
         \<and> \<not> request_keyframe e1"
proof -
  from assms have out: "out = fst (encodeOneFrame drv input_frame True (impl e))"
    and t: "t = snd (encodeOneFrame drv input_frame True (impl e))"
    and e1: "e1 = e\<lparr>request_keyframe := False\<rparr>"
    by (simp_all add: encodeFrame_after_requestKeyframe)
  have pictures: "h = nvencoder (impl e)
      \<and> encodePicFlags p AND NV_ENC_PIC_FLAG_FORCEIDR = NV_ENC_PIC_FLAG_FORCEIDR
      \<and> inputBuffer p = MapInputResource_mapped drv"
    if "Call_nvEncEncodePicture h p \<in> set t" for h p
    using encodeOneFrame_picture_calls [of h p drv input_frame True "impl e"] that
    by (simp add: t force_idr_flag_set)
  have submitted: "Call_nvEncRegisterResource (nvencoder (impl e)) input_frame \<in> set t
      \<and> (\<exists>p. Call_nvEncEncodePicture (nvencoder (impl e)) p \<in> set t)"
    if "RegisterResource_status drv = NV_ENC_SUCCESS"
      and "MapInputResource_status drv = NV_ENC_SUCCESS"
    using encodeOneFrame_submits [OF that, of "impl e" input_frame True]
    by (simp add: t)
  have refused: "out = None \<and> (\<forall>h p. Call_nvEncEncodePicture h p \<notin> set t)"
    if "RegisterResource_status drv \<noteq> NV_ENC_SUCCESS
        \<or> MapInputResource_status drv \<noteq> NV_ENC_SUCCESS"
    using encodeOneFrame_not_mapped
            [OF that, where input_frame = input_frame and req = True and s = "impl e"]
    by (simp add: out t)
  have keyframe: "is_keyframe fr =
      (GetEncodeStats_picType drv = NV_ENC_PIC_TYPE_I
       \<or> GetEncodeStats_picType drv = NV_ENC_PIC_TYPE_IDR)"
    if "out = Some fr" for fr
    using encodeOneFrame_is_keyframe [of drv input_frame True "impl e" fr] that
    by (simp add: out)
  from pictures submitted refused keyframe show ?thesis
    by (simp add: e1)
qed

theorem requested_keyframe_reaches_next_frame_witness:
  "encodeFrame encode_ok (Some 80)
     (requestKeyframe \<lparr>request_keyframe = False, impl = live_encoder\<rparr>) =
     (Some \<lparr>frame = [0, 0, 0, 1, 0x65], is_keyframe = True\<rparr>,
      \<lparr>request_keyframe = False, impl = live_encoder\<rparr>,
      [Call_nvEncRegisterResource (Some 16) (Some 80),
       Call_nvEncMapInputResource (Some 16) (Some 48),
       Call_nvEncEncodePicture (Some 16)
         \<lparr>encodePicFlags = NV_ENC_PIC_FLAG_FORCEIDR OR NV_ENC_PIC_FLAG_OUTPUT_SPSPPS,
          inputBuffer = Some 64, bufferFmt = NV_ENC_BUFFER_FORMAT_ARGB,
          inputWidth = 1920, inputHeight = 1080,
          outputBitstream = Some 32, completionEvent = None\<rparr>,
       Call_nvEncLockBitstream (Some 16) (Some 32),
       Call_nvEncUnlockBitstream (Some 16) (Some 32),
       Call_nvEncUnmapInputResource (Some 16)
         \<lparr>registeredResource = Some 48, mappedResource = Some 64\<rparr>,
       Call_nvEncUnregisterResource (Some 16) 48,
       Call_nvEncGetEncodeStats (Some 16) (Some 32)])
   \<and> (\<exists>p. Call_nvEncEncodePicture (Some 16) p
            \<in> set (snd (snd (encodeFrame encode_ok (Some 80)
                 (requestKeyframe \<lparr>request_keyframe = False, impl = live_encoder\<rparr>))))
          \<and> encodePicFlags p AND NV_ENC_PIC_FLAG_FORCEIDR = NV_ENC_PIC_FLAG_FORCEIDR)
   \<and> GetEncodeStats_picType encode_ok = NV_ENC_PIC_TYPE_IDR"
proof -
  let ?e = "\<lparr>request_keyframe = False, impl = live_encoder\<rparr>"
  let ?t = "[Call_nvEncRegisterResource (Some 16) (Some 80),
       Call_nvEncMapInputResource (Some 16) (Some 48),
       Call_nvEncEncodePicture (Some 16)
         \<lparr>encodePicFlags = NV_ENC_PIC_FLAG_FORCEIDR OR NV_ENC_PIC_FLAG_OUTPUT_SPSPPS,
          inputBuffer = Some 64, bufferFmt = NV_ENC_BUFFER_FORMAT_ARGB,
          inputWidth = 1920, inputHeight = 1080,
          outputBitstream = Some 32, completionEvent = None\<rparr>,
       Call_nvEncLockBitstream (Some 16) (Some 32),
       Call_nvEncUnlockBitstream (Some 16) (Some 32),
       Call_nvEncUnmapInputResource (Some 16)
         \<lparr>registeredResource = Some 48, mappedResource = Some 64\<rparr>,
       Call_nvEncUnregisterResource (Some 16) 48,
       Call_nvEncGetEncodeStats (Some 16) (Some 32)]"
  have run: "encodeFrame encode_ok (Some 80) (requestKeyframe ?e) =
      (Some \<lparr>frame = [0, 0, 0, 1, 0x65], is_keyframe = True\<rparr>, ?e, ?t)"
    by (simp add: encodeFrame_after_requestKeyframe encodeOneFrame_def initInputFrame_cases
          uninitInputFrame_def Let_def encode_ok_def live_encoder_fields)
  have ok: "RegisterResource_status encode_ok = NV_ENC_SUCCESS"
    "MapInputResource_status encode_ok = NV_ENC_SUCCESS"
    "GetEncodeStats_picType encode_ok = NV_ENC_PIC_TYPE_IDR"
    by (simp_all add: encode_ok_def)
  note main = requested_keyframe_reaches_next_frame [OF run]
  from main ok obtain p where p: "Call_nvEncEncodePicture (nvencoder (impl ?e)) p \<in> set ?t"
    by blast
  with main have "encodePicFlags p AND NV_ENC_PIC_FLAG_FORCEIDR = NV_ENC_PIC_FLAG_FORCEIDR"
    by blast
  with p have "\<exists>p. Call_nvEncEncodePicture (Some 16) p \<in> set ?t
      \<and> encodePicFlags p AND NV_ENC_PIC_FLAG_FORCEIDR = NV_ENC_PIC_FLAG_FORCEIDR"
    by (auto simp: live_encoder_fields)
  with run ok show ?thesis
    by simp
qed


text \<open>
  C5 as stated fails: here the runtime refuses to register the input frame. The
  \<open>encodeFrame\<close> call that follows \<open>requestKeyframe\<close> returns no frame and its only effects
  are the refused registration and a log line, so nothing is submitted with the
  force-IDR flag; and the request being used up, the frame after it is submitted with
  no flag at all.
\<close>

theorem keyframe_request_lost_when_registration_fails:
  "encodeFrame encode_no_register (Some 80)
     (requestKeyframe \<lparr>request_keyframe = False, impl = live_encoder\<rparr>) =
     (None,
      \<lparr>request_keyframe = False, impl = live_encoder\<rparr>,
      [Call_nvEncRegisterResource (Some 16) (Some 80),
       LOG_ERR ''nvEncRegisterResource failed with''])
   \<and> encodeFrame encode_ok_P (Some 80) \<lparr>request_keyframe = False, impl = live_encoder\<rparr> =
     (Some \<lparr>frame = [0, 0, 0, 1, 0x65], is_keyframe = False\<rparr>,
      \<lparr>request_keyframe = False, impl = live_encoder\<rparr>,
      [Call_nvEncRegisterResource (Some 16) (Some 80),
       Call_nvEncMapInputResource (Some 16) (Some 48),
       Call_nvEncEncodePicture (Some 16)
         \<lparr>encodePicFlags = 0,
          inputBuffer = Some 64, bufferFmt = NV_ENC_BUFFER_FORMAT_ARGB,
          inputWidth = 1920, inputHeight = 1080,
          outputBitstream = Some 32, completionEvent = None\<rparr>,
       Call_nvEncLockBitstream (Some 16) (Some 32),
       Call_nvEncUnlockBitstream (Some 16) (Some 32),
       Call_nvEncUnmapInputResource (Some 16)
         \<lparr>registeredResource = Some 48, mappedResource = Some 64\<rparr>,
       Call_nvEncUnregisterResource (Some 16) 48,
       Call_nvEncGetEncodeStats (Some 16) (Some 32)])"
  by (simp add: encodeFrame_def needKeyframe_def requestKeyframe_def
        encodeOneFrame_def initInputFrame_cases uninitInputFrame_def Let_def
        encode_no_register_def encode_ok_P_def encode_ok_def live_encoder_fields)


section \<open>Properties of the service manager\<close>

text \<open>
  Whatever the status of a \<open>ServiceStatus\<close> message, \<open>onServiceStatus\<close> makes exactly one
  callback, and it reports \<open>Up\<close>; a disconnected pipe is the only source of \<open>Down\<close>.
\<close>

lemma onServiceStatus_always_Up:
  "callbacks (onServiceStatus status m) = callbacks m @ [on_service_status Up]"
  by (simp add: onServiceStatus_def)

lemma onPipeDisconnected_Down:
  "callbacks (onPipeDisconnected closed_fd m) = callbacks m @ [on_service_status Down]"
  by (simp add: onPipeDisconnected_def)

text \<open>
  C4 at the failing input: a \<open>ServiceStatus\<close> message whose code is not \<open>Success\<close> (here
  the code numbered 1) reaches the UI as \<open>Up\<close>, the status a \<open>Success\<close> message gives.
\<close>

theorem service_error_reported_as_Up:
  "callbacks (onPipeMessage 7 (ServiceStatusMessage (ErrorCode_Other 1))
                \<lparr>fd = 7, callbacks = []\<rparr>)
     = [on_service_status Up]
   \<and> callbacks (onPipeMessage 7 (ServiceStatusMessage Success) \<lparr>fd = 7, callbacks = []\<rparr>)
     = [on_service_status Up]"
  by (simp add: onPipeMessage_def onServiceStatus_always_Up)

theorem service_error_reported_as_Up_witness:
  "on_service_status Up
     \<in> set (callbacks (onPipeMessage 7 (ServiceStatusMessage (ErrorCode_Other 1))
                          \<lparr>fd = 7, callbacks = []\<rparr>))
   \<and> ErrorCode_Other 1 \<noteq> Success"
  using service_error_reported_as_Up by simp

section \<open>Properties of the input replay\<close>

subsection \<open>Keyboard\<close>

text \<open>
  The \<open>switch\<close> reports a scancode as valid exactly when its number is that of a label of
  a row, and then the key is the one of a row with that number.
\<close>

lemma switch_scancode_valid:
  "snd (snd (snd (switch_scancode sc rows scancode))) = (scancode \<in> sc ` fst ` set rows)"
  by (induction rows) auto

lemma switch_scancode_key:
  assumes "switch_scancode sc rows scancode = (win_key, use_scancode, extented, True)"
  shows "\<exists>label vk. (label, vk, use_scancode, extented) \<in> set rows
           \<and> sc label = scancode \<and> win_key = word_of_int vk"
  using assms by (induction rows) (auto split: if_splits, blast+)

lemma keyup_bit:
  "(((if use_scancode then KEYEVENTF_SCANCODE else 0)
      OR (if key_down then 0 else KEYEVENTF_KEYUP))
      OR (if extented then KEYEVENTF_EXTENDEDKEY else 0)) AND KEYEVENTF_KEYUP
     = (if key_down then 0 else KEYEVENTF_KEYUP)"
  by (simp add: KEYEVENTF_SCANCODE_def KEYEVENTF_KEYUP_def KEYEVENTF_EXTENDEDKEY_def)

lemma KEYEVENTF_KEYUP_nonzero: "KEYEVENTF_KEYUP \<noteq> 0"
  by (simp add: KEYEVENTF_KEYUP_def)

lemma onKeyboardEvent_invalid:
  assumes "scancode_to_winkey sc (sint (key keyboard)) = (win_key, use_scancode, extented, False)"
  shows "onKeyboardEvent sc mvk keyboard = []"
  using assms by (simp add: onKeyboardEvent_def)

lemma onKeyboardEvent_valid:
  assumes "scancode_to_winkey sc (sint (key keyboard)) = (win_key, use_scancode, extented, True)"
  shows "onKeyboardEvent sc mvk keyboard =
     [INPUT_KEYBOARD
        \<lparr>wVk = win_key,
         wScan = (if use_scancode then ucast (mvk (ucast win_key) MAPVK_VK_TO_VSC_EX) else 0),
         ki_dwFlags = ((if use_scancode then KEYEVENTF_SCANCODE else 0)
                         OR (if down keyboard then 0 else KEYEVENTF_KEYUP))
                        OR (if extented then KEYEVENTF_EXTENDEDKEY else 0),
         ki_time = 0\<rparr>]"
  using assms by (simp add: onKeyboardEvent_def Let_def)

text \<open>
  C7. Let the table give \<open>(win_key, use_scancode, extented, valid)\<close> for the scancode of
  a keyboard event. When \<open>valid\<close> is false (the scancode has no entry), nothing is passed
  to \<open>SendInput\<close>; when it is true, exactly one keyboard \<open>INPUT\<close> is passed, its virtual
  key is the table's and its key-up flag is set exactly when the event is not a key-down.
  The function has no other result, so there is no error to raise.
\<close>

theorem keyboard_event_dropped_or_injected_once:
  assumes "scancode_to_winkey sc (sint (key keyboard)) = (win_key, use_scancode, extented, valid)"
  shows "(\<not> valid \<longrightarrow> onKeyboardEvent sc mvk keyboard = [])
         \<and> (valid \<longrightarrow>
              (\<exists>ki. onKeyboardEvent sc mvk keyboard = [INPUT_KEYBOARD ki]
                    \<and> wVk ki = win_key
                    \<and> (ki_dwFlags ki AND KEYEVENTF_KEYUP = KEYEVENTF_KEYUP)
                        = (\<not> down keyboard)))"
proof (cases valid)
  case False
  with assms show ?thesis
    by (simp add: onKeyboardEvent_invalid)
next
  case True
  with assms show ?thesis
    by (simp add: onKeyboardEvent_valid keyup_bit KEYEVENTF_KEYUP_nonzero)
qed

lemma usb_usage_A: "scancode_to_winkey usb_usage 4 = (0x41, True, False, True)"
  by (simp add: scancode_to_winkey_def)

lemma usb_usage_100:
  "scancode_to_winkey usb_usage 100 = (0, False, False, False)"
  by (simp add: scancode_to_winkey_def switch_rows_def)

theorem keyboard_event_dropped_or_injected_once_witness:
  "scancode_to_winkey usb_usage (sint (key \<lparr>key = 100, down = True\<rparr>))
     = (0, False, False, False)
   \<and> onKeyboardEvent usb_usage MapVirtualKeyW_example \<lparr>key = 100, down = True\<rparr> = []
   \<and> scancode_to_winkey usb_usage (sint (key \<lparr>key = 4, down = False\<rparr>))
     = (0x41, True, False, True)
   \<and> onKeyboardEvent usb_usage MapVirtualKeyW_example \<lparr>key = 4, down = False\<rparr>
     = [INPUT_KEYBOARD \<lparr>wVk = 0x41, wScan = 0x1E,
                        ki_dwFlags = KEYEVENTF_SCANCODE OR KEYEVENTF_KEYUP, ki_time = 0\<rparr>]"
proof -
  have unmapped: "scancode_to_winkey usb_usage (sint (key \<lparr>key = 100, down = True\<rparr>))
      = (0, False, False, False)"
    by (simp add: usb_usage_100)
  have mapped: "scancode_to_winkey usb_usage (sint (key \<lparr>key = 4, down = False\<rparr>))
      = (0x41, True, False, True)"
    by (simp add: usb_usage_A)
  have dropped: "onKeyboardEvent usb_usage MapVirtualKeyW_example \<lparr>key = 100, down = True\<rparr> = []"
    using keyboard_event_dropped_or_injected_once [OF unmapped, of MapVirtualKeyW_example]
    by simp
  have injected: "onKeyboardEvent usb_usage MapVirtualKeyW_example \<lparr>key = 4, down = False\<rparr>
      = [INPUT_KEYBOARD \<lparr>wVk = 0x41, wScan = 0x1E,
                         ki_dwFlags = KEYEVENTF_SCANCODE OR KEYEVENTF_KEYUP, ki_time = 0\<rparr>]"
    by (simp add: onKeyboardEvent_valid [OF mapped] MapVirtualKeyW_example_def)
  from unmapped dropped mapped injected show ?thesis
    by simp
qed


subsection \<open>Mouse\<close>

lemma absolute_move_absorbed:
  "(fl OR (MOUSEEVENTF_ABSOLUTE OR MOUSEEVENTF_MOVE)) AND (MOUSEEVENTF_ABSOLUTE OR MOUSEEVENTF_MOVE)
     = MOUSEEVENTF_ABSOLUTE OR MOUSEEVENTF_MOVE"
  by (simp add: word_ao_absorbs)

lemma wheel_has_no_move_bits:
  "MOUSEEVENTF_WHEEL AND (MOUSEEVENTF_ABSOLUTE OR MOUSEEVENTF_MOVE) = 0"
  by (simp add: MOUSEEVENTF_WHEEL_def MOUSEEVENTF_ABSOLUTE_def MOUSEEVENTF_MOVE_def)

text \<open>
  In absolute mode, an event that carries a position and no wheel delta is injected with
  \<open>dx\<close> and \<open>dy\<close> computed from \<open>x\<close> and \<open>y\<close> and with both absolute-move flags set.
\<close>

lemma onMouseEvent_absolute_without_wheel:
  assumes "x mouse \<noteq> None \<or> y mouse \<noteq> None" and "delta_z mouse = None"
  shows "\<exists>mi. onMouseEvent to_abs True mouse = INPUT_MOUSE mi
           \<and> dx mi = to_abs (get_float (x mouse))
           \<and> dy mi = to_abs (get_float (y mouse))
           \<and> mi_dwFlags mi AND (MOUSEEVENTF_ABSOLUTE OR MOUSEEVENTF_MOVE)
                = MOUSEEVENTF_ABSOLUTE OR MOUSEEVENTF_MOVE"
  using assms
  by (auto simp: onMouseEvent_def Let_def absolute_move_absorbed)

text \<open>
  In relative mode, an event that carries a delta and no wheel delta is injected with the
  deltas as they are and with the move flag set.
\<close>

lemma onMouseEvent_relative_without_wheel:
  assumes "delta_x mouse \<noteq> None \<or> delta_y mouse \<noteq> None" and "delta_z mouse = None"
  shows "\<exists>mi. onMouseEvent to_abs False mouse = INPUT_MOUSE mi
           \<and> dx mi = get_int32 (delta_x mouse)
           \<and> dy mi = get_int32 (delta_y mouse)
           \<and> mi_dwFlags mi AND MOUSEEVENTF_MOVE = MOUSEEVENTF_MOVE"
  using assms
  by (auto simp: onMouseEvent_def Let_def word_ao_absorbs)

text \<open>
  An event with a wheel delta is injected with the wheel flag alone: the assignment
  replaces whatever flags the button and the move had set.
\<close>

lemma onMouseEvent_wheel_flags:
  assumes "delta_z mouse = Some z"
  shows "\<exists>mi. onMouseEvent to_abs absolute_mouse mouse = INPUT_MOUSE mi
           \<and> mi_dwFlags mi = MOUSEEVENTF_WHEEL \<and> mouseData mi = z"
  using assms
  by (simp add: onMouseEvent_def Let_def)

text \<open>
  C8 at the failing input: absolute mode, an event with the position (1/2, 1/2) and a
  wheel delta of 120. The coordinates are written, but the flags of the injected event
  are the wheel flag only, which has neither the absolute nor the move bit.
\<close>

theorem wheel_event_loses_absolute_move_flags:
  "onMouseEvent to_abs True
     \<lparr>key_falg = None, x = Some (1 / 2), y = Some (1 / 2),
      delta_x = None, delta_y = None, delta_z = Some 120\<rparr>
     = INPUT_MOUSE \<lparr>dx = to_abs (1 / 2), dy = to_abs (1 / 2), mouseData = 120,
                    mi_dwFlags = MOUSEEVENTF_WHEEL, mi_time = 0\<rparr>
   \<and> MOUSEEVENTF_WHEEL AND (MOUSEEVENTF_ABSOLUTE OR MOUSEEVENTF_MOVE) = 0"
  by (simp add: onMouseEvent_def Let_def get_float_def wheel_has_no_move_bits)

theorem wheel_event_loses_absolute_move_flags_witness:
  "onMouseEvent (\<lambda>v. word_of_int \<lfloor>65535 * v\<rfloor>) True
     \<lparr>key_falg = None, x = Some (1 / 2), y = Some (1 / 2),
      delta_x = None, delta_y = None, delta_z = Some 120\<rparr>
     = INPUT_MOUSE \<lparr>dx = 32767, dy = 32767, mouseData = 120,
                    mi_dwFlags = MOUSEEVENTF_WHEEL, mi_time = 0\<rparr>"
  using wheel_event_loses_absolute_move_flags [of "\<lambda>v. word_of_int \<lfloor>65535 * v\<rfloor>"]
  by simp

section \<open>Properties of the display's description\<close>

text \<open>
  C10. The frequency \<open>getDisplayOutputDesc\<close> returns is never 0. When the enumeration
  succeeds and reports the frequency 0, it is 60; when the enumeration fails, it is 60
  and the width and height are those of the screen-metric query.
\<close>

theorem getDisplayOutputDesc_frequency:
  "frequency (getDisplayOutputDesc os) \<noteq> 0
   \<and> (\<forall>dm. EnumDisplaySettings os = Some dm \<and> dmDisplayFrequency dm = 0 \<longrightarrow>
          frequency (getDisplayOutputDesc os) = 60)
   \<and> (EnumDisplaySettings os = None \<longrightarrow>
          getDisplayOutputDesc os =
            \<lparr>desc_width = getScreenWidth os, desc_height = getScreenHeight os,
             frequency = 60\<rparr>)"
  by (simp add: getDisplayOutputDesc_def split: option.splits)

theorem getDisplayOutputDesc_frequency_witness:
  "getDisplayOutputDesc
     \<lparr>EnumDisplaySettings = Some \<lparr>dmPelsWidth = 1920, dmPelsHeight = 1080,
                                   dmDisplayFrequency = 0\<rparr>,
      DESKTOPHORZRES = 1280, DESKTOPVERTRES = 720\<rparr>
     = \<lparr>desc_width = 1920, desc_height = 1080, frequency = 60\<rparr>
   \<and> getDisplayOutputDesc
       \<lparr>EnumDisplaySettings = None, DESKTOPHORZRES = 1280, DESKTOPVERTRES = 720\<rparr>
     = \<lparr>desc_width = 1280, desc_height = 720, frequency = 60\<rparr>
   \<and> frequency (getDisplayOutputDesc
       \<lparr>EnumDisplaySettings = Some \<lparr>dmPelsWidth = 1920, dmPelsHeight = 1080,
                                     dmDisplayFrequency = 144\<rparr>,
        DESKTOPHORZRES = 1280, DESKTOPVERTRES = 720\<rparr>) = 144"
proof -
  let ?fail = "\<lparr>EnumDisplaySettings = None, DESKTOPHORZRES = 1280, DESKTOPVERTRES = 720\<rparr>"
  have "getDisplayOutputDesc ?fail =
      \<lparr>desc_width = getScreenWidth ?fail, desc_height = getScreenHeight ?fail, frequency = 60\<rparr>"
    using getDisplayOutputDesc_frequency [of ?fail] by simp
  then have "getDisplayOutputDesc ?fail =
      \<lparr>desc_width = 1280, desc_height = 720, frequency = 60\<rparr>"
    by (simp add: getScreenWidth_def getScreenHeight_def)
  then show ?thesis
    by (simp add: getDisplayOutputDesc_def)
qed

section \<open>Properties of the session coordinator\<close>

lemma stop_fields:
  "session_state (stop s) = Closed"
  "\<not> has_pipeline (stop s)"
  "\<not> has_transport (stop s)"
  "pending_sends (stop s) = []"
  by (simp_all add: stop_def transition_def Let_def)

lemma stop_status_callbacks:
  "status_callbacks (stop s) =
     (if session_state s = Closed then status_callbacks s else status_callbacks s @ [Closed])"
  by (simp add: stop_def transition_def Let_def)

lemma stop_idempotent: "stop (stop s) = stop s"
  by (simp add: stop_def transition_def Let_def)

lemma on_event_after_stop: "on_event ev (stop s) = stop s"
  by (cases ev) (simp_all add: stop_idempotent stop_fields)

lemma run_events_after_stop: "run_events evs (stop s) = stop s"
  by (induction evs) (simp_all add: on_event_after_stop)

text \<open>
  C3. From any session, \<open>stop\<close> gives a session that is \<open>Closed\<close>, owns neither pipeline
  nor transport and has no pending send; stopping it again changes nothing; and no
  sequence of later events changes it, so no further status callback is made.
\<close>

theorem stop_closes_for_good:
  "session_state (stop s) = Closed
   \<and> \<not> has_pipeline (stop s)
   \<and> \<not> has_transport (stop s)
   \<and> pending_sends (stop s) = []
   \<and> stop (stop s) = stop s
   \<and> run_events evs (stop s) = stop s
   \<and> status_callbacks (run_events evs (stop s)) = status_callbacks (stop s)"
  by (simp add: stop_fields stop_idempotent run_events_after_stop)

theorem stop_closes_for_good_witness:
  "status_callbacks
     (run_events [UnrecoverableError, KeepAliveTimeout, SendControl 5, Stop, Start True]
        (stop \<lparr>session_state = Streaming, has_pipeline = True, has_transport = True,
               pending_sends = [3], status_callbacks = [TransportConnecting, Streaming]\<rparr>))
     = [TransportConnecting, Streaming, Closed]
   \<and> session_state
       (stop \<lparr>session_state = Streaming, has_pipeline = True, has_transport = True,
              pending_sends = [3], status_callbacks = [TransportConnecting, Streaming]\<rparr>)
     = Closed"
proof -
  let ?s = "\<lparr>session_state = Streaming, has_pipeline = True, has_transport = True,
             pending_sends = [3], status_callbacks = [TransportConnecting, Streaming]\<rparr>"
  let ?evs = "[UnrecoverableError, KeepAliveTimeout, SendControl 5, Stop, Start True]"
  have quiet: "status_callbacks (run_events ?evs (stop ?s)) = status_callbacks (stop ?s)"
    and closed: "session_state (stop ?s) = Closed"
    using stop_closes_for_good [of ?s ?evs] by blast+
  have "status_callbacks (stop ?s) = [TransportConnecting, Streaming, Closed]"
    by (simp add: stop_status_callbacks)
  with quiet closed show ?thesis
    by (simp only: simp_thms)
qed


end
